theory Spec2Isabelle
  imports Main "HOL-Library.Sublist" "HOL-Library.Multiset"
begin

section \<open>JavaScript values\<close>

text \<open>
  A thrown value is either an \<^verbatim>\<open>Error\<close> instance, of which the code reads only
  \<^verbatim>\<open>message\<close>, or some other value (\<^verbatim>\<open>error instanceof Error\<close> is false).
\<close>

datatype js_exn = Error string | NonError

text \<open>
  A value of type \<^verbatim>\<open>string | null\<close> (or \<^verbatim>\<open>string | undefined\<close>) in a condition:
  \<^verbatim>\<open>null\<close>, \<^verbatim>\<open>undefined\<close> and the empty string are falsy.
\<close>

definition truthy :: "string option \<Rightarrow> bool" where
  "truthy v = (case v of None \<Rightarrow> False | Some s \<Rightarrow> s \<noteq> [])"

text \<open>\<^verbatim>\<open>s.includes(sub)\<close>: \<^verbatim>\<open>sub\<close> occurs in \<^verbatim>\<open>s\<close> as a contiguous substring.\<close>

fun str_includes :: "string \<Rightarrow> string \<Rightarrow> bool" where
  "str_includes [] sub = (sub = [])"
| "str_includes (c # cs) sub = (prefix sub (c # cs) \<or> str_includes cs sub)"

text \<open>String concatenation with a value that may be \<^verbatim>\<open>undefined\<close>.\<close>

definition js_string :: "string option \<Rightarrow> string" where
  "js_string v = (case v of None \<Rightarrow> ''undefined'' | Some s \<Rightarrow> s)"

text \<open>
  The network requests a component has issued, in order. The log is not a variable of the
  source: it records the calls of \<^verbatim>\<open>api.post\<close> and \<^verbatim>\<open>api.get\<close>, so that "no network
  call" and "at most one retrieval" are statements about a state.
\<close>

datatype request =
    POST_login string string
  | GET_chat_history string
  | GET_rag_query string "string option"


section \<open>\<^verbatim>\<open>services/api.ts\<close>\<close>

record LoginResponse =
  access_token :: string
  token_type :: string

text \<open>
  What the response interceptor reads of an axios error: \<^verbatim>\<open>code\<close>, whether there is a
  \<^verbatim>\<open>response\<close> (its HTTP status), and \<^verbatim>\<open>message\<close>.
\<close>

record AxiosError =
  code :: "string option"
  response :: "nat option"
  message :: string

definition response_interceptor :: "AxiosError \<Rightarrow> AxiosError" where
  "response_interceptor error =
     (if code error = Some ''ECONNABORTED''
      then error\<lparr>message := ''Request timeout. Please check your connection.''\<rparr>
      else if code error = Some ''ERR_NETWORK''
      then error\<lparr>message :=
        ''Network Error: Cannot reach the server. Please ensure the backend is running.''\<rparr>
      else if response error = None
      then error\<lparr>message :=
        ''No response from server. Please check if the backend is running.''\<rparr>
      else error)"

text \<open>
  An axios call either resolves with \<^verbatim>\<open>response.data\<close> or rejects with the error the
  interceptor hands on; an axios error is an \<^verbatim>\<open>Error\<close> instance.
\<close>

definition api_call :: "AxiosError + 'a \<Rightarrow> js_exn + 'a" where
  "api_call outcome =
     (case outcome of
        Inl error \<Rightarrow> Inl (Error (message (response_interceptor error)))
      | Inr data \<Rightarrow> Inr data)"

definition loginUser :: "string option \<Rightarrow> AxiosError + LoginResponse \<Rightarrow> js_exn + LoginResponse" where
  "loginUser API_BASE_URL post =
     (if \<not> truthy API_BASE_URL
      then Inl (Error ''API_BASE_URL is not configured. Please check your .env file.'')
      else api_call post)"


section \<open>The session manager: \<^verbatim>\<open>AuthProvider\<close>\<close>

record User =
  email :: string
  username :: string
  exp :: int

text \<open>
  The four state variables of \<^verbatim>\<open>AuthProvider\<close>, the browser's session storage, which it
  reads and writes under the key \<^verbatim>\<open>token\<close>, and the log of its requests.
\<close>

record auth_state =
  user :: "User option"
  token :: "string option"
  isLoading :: bool
  error :: "string option"
  sessionStorage :: "string \<rightharpoonup> string"
  requests :: "request list"

definition initial_auth :: "(string \<rightharpoonup> string) \<Rightarrow> auth_state" where
  "initial_auth store =
     \<lparr>user = None, token = None, isLoading = True, error = None,
      sessionStorage = store, requests = []\<rparr>"

text \<open>
  The effect run on mount. \<^verbatim>\<open>jwtDecode\<close> is the library function (it throws on a string
  that is not a token), \<^verbatim>\<open>now\<close> is \<^verbatim>\<open>Date.now()\<close> in milliseconds; \<^verbatim>\<open>exp\<close> counts seconds.
\<close>

definition AuthProvider_mount ::
  "(string \<Rightarrow> js_exn + User) \<Rightarrow> int \<Rightarrow> auth_state \<Rightarrow> auth_state" where
  "AuthProvider_mount jwtDecode now st =
     (let st' =
        (case sessionStorage st ''token'' of
           None \<Rightarrow> st
         | Some savedToken \<Rightarrow>
             if savedToken = [] then st
             else
               (case jwtDecode savedToken of
                  Inr decoded \<Rightarrow>
                    if exp decoded * 1000 > now
                    then st\<lparr>token := Some savedToken, user := Some decoded\<rparr>
                    else st\<lparr>sessionStorage := (sessionStorage st)(''token'' := None)\<rparr>
                | Inl thrown \<Rightarrow>
                    st\<lparr>sessionStorage := (sessionStorage st)(''token'' := None)\<rparr>))
      in st'\<lparr>isLoading := False\<rparr>)"

text \<open>Startup recovery: the mount effect on the provider's initial state.\<close>

definition startup ::
  "(string \<Rightarrow> js_exn + User) \<Rightarrow> int \<Rightarrow> (string \<rightharpoonup> string) \<Rightarrow> auth_state" where
  "startup jwtDecode now store = AuthProvider_mount jwtDecode now (initial_auth store)"

text \<open>The \<^verbatim>\<open>catch\<close> block of \<^verbatim>\<open>login\<close>: the message chosen for a thrown value.\<close>

definition login_error :: "string option \<Rightarrow> js_exn \<Rightarrow> string" where
  "login_error apiBaseUrl thrown =
     (case thrown of
        Error m \<Rightarrow>
          if str_includes m ''Network Error'' \<or> str_includes m ''ERR_NETWORK''
          then ''Cannot connect to server. Please ensure the backend API is running at ''
                 @ js_string apiBaseUrl
          else if str_includes m ''401'' \<or> str_includes m ''Unauthorized''
          then ''Invalid credentials. Please check your email and password.''
          else if str_includes m ''timeout''
          then ''Request timeout. Please check your internet connection and try again.''
          else ''Login failed: '' @ m
      | NonError \<Rightarrow> ''An unexpected error occurred during login.'')"

text \<open>
  \<^verbatim>\<open>login(email, password)\<close>, run to completion. \<^verbatim>\<open>env\<close> is
  \<^verbatim>\<open>import.meta.env.VITE_API_BASE_URL\<close>, \<^verbatim>\<open>post\<close> is how the request of \<^verbatim>\<open>loginUser\<close> ends.
  The result is the state after the \<^verbatim>\<open>finally\<close> block and the boolean returned; a
  function that could throw to its caller would need a third kind of result, and there
  is none: every \<^verbatim>\<open>throw\<close> inside the \<^verbatim>\<open>try\<close> is a branch below.
\<close>

definition login ::
  "string option \<Rightarrow> (string \<Rightarrow> js_exn + User) \<Rightarrow> AxiosError + LoginResponse \<Rightarrow>
   string \<Rightarrow> string \<Rightarrow> auth_state \<Rightarrow> auth_state \<times> bool" where
  "login env jwtDecode post email' password st =
     (let st1 = st\<lparr>isLoading := True, error := None\<rparr> in
      if \<not> truthy env
      then (st1\<lparr>error := Some ''API configuration missing. Please check your .env file.'',
                isLoading := False\<rparr>, False)
      else
        let st2 = st1\<lparr>requests := requests st1 @ [POST_login email' password]\<rparr> in
        (case loginUser env post of
           Inl thrown \<Rightarrow>
             (st2\<lparr>error := Some (login_error env thrown), isLoading := False\<rparr>, False)
         | Inr resp \<Rightarrow>
             (case jwtDecode (access_token resp) of
                Inl thrown \<Rightarrow>
                  (st2\<lparr>error := Some (login_error env thrown), isLoading := False\<rparr>, False)
              | Inr decoded \<Rightarrow>
                  (st2\<lparr>token := Some (access_token resp), user := Some decoded,
                       sessionStorage := (sessionStorage st2)(''token'' \<mapsto> access_token resp),
                       isLoading := False\<rparr>, True))))"

definition logout :: "auth_state \<Rightarrow> auth_state" where
  "logout st =
     st\<lparr>user := None, token := None, error := None,
        sessionStorage := (sessionStorage st)(''token'' := None)\<rparr>"


section \<open>The chat synchronizer: \<^verbatim>\<open>ChatProvider\<close>\<close>

text \<open>
  An item of the history (\<^verbatim>\<open>ApiResponse\<close>), the reply to a question (\<^verbatim>\<open>ChatResponse\<close>,
  whose optional properties may be \<^verbatim>\<open>undefined\<close>) and an entry of the transcript
  (\<^verbatim>\<open>ChatMessage\<close>). \<^verbatim>\<open>updated_at\<close> may be \<^verbatim>\<open>null\<close>, and \<^verbatim>\<open>undefined\<close> where optional.
  The property \<^verbatim>\<open>id\<close> is the field \<open>id'\<close>.
\<close>

record ApiResponse =
  id' :: int
  question :: string
  answer :: string
  user_id :: string
  created_at :: string
  updated_at :: "string option"

record ChatResponse =
  id' :: "int option"
  question :: string
  answer :: string
  user_id :: "string option"
  created_at :: "string option"
  updated_at :: "string option option"

record ChatMessage =
  id' :: "int option"
  question :: string
  answer :: string
  user_id :: "string option"
  created_at :: "string option"
  updated_at :: "string option option"
  isUser :: bool

text \<open>The three state variables of \<^verbatim>\<open>ChatProvider\<close> and the log of its requests.\<close>

record chat_state =
  messages :: "ChatMessage list"
  isLoading :: bool
  historyFetched :: bool
  requests :: "request list"

definition initial_chat :: chat_state where
  "initial_chat = \<lparr>messages = [], isLoading = False, historyFetched = False, requests = []\<rparr>"

subsection \<open>\<^verbatim>\<open>fetchHistory\<close>\<close>

text \<open>The callback of \<^verbatim>\<open>flatMap\<close>: the two entries made of one item of the history.\<close>

definition history_pair :: "ApiResponse \<Rightarrow> ChatMessage list" where
  "history_pair item =
     [\<lparr>id' = Some (ApiResponse.id' item),
       question = ApiResponse.question item,
       answer = ApiResponse.question item,
       user_id = Some (ApiResponse.user_id item),
       created_at = Some (ApiResponse.created_at item),
       updated_at = Some (ApiResponse.updated_at item),
       isUser = True\<rparr>,
      \<lparr>id' = Some (ApiResponse.id' item),
       question = ApiResponse.question item,
       answer = ApiResponse.answer item,
       user_id = Some (ApiResponse.user_id item),
       created_at = Some (ApiResponse.created_at item),
       updated_at = Some (ApiResponse.updated_at item),
       isUser = False\<rparr>]"

text \<open>
  \<^verbatim>\<open>history.sort((a, b) => a.id - b.id).flatMap(...)\<close>. The sort of an array is stable:
  with this comparison it orders the items by ascending \<^verbatim>\<open>id\<close> and keeps the order in
  which items of equal \<^verbatim>\<open>id\<close> came; \<^const>\<open>sort_key\<close> is such a sort.
\<close>

definition formattedHistory :: "ApiResponse list \<Rightarrow> ChatMessage list" where
  "formattedHistory history = concat (map history_pair (sort_key ApiResponse.id' history))"

text \<open>
  \<^verbatim>\<open>fetchHistory()\<close> suspends once, at \<^verbatim>\<open>await getChatHistory(token)\<close>, so it is two steps
  on the state. The first step is the call up to the \<^verbatim>\<open>await\<close>. The function is made by
  \<^verbatim>\<open>useCallback\<close> at a render, and its test reads the \<^verbatim>\<open>token\<close> and the \<^verbatim>\<open>historyFetched\<close>
  of that render: \<^verbatim>\<open>tok\<close> and \<^verbatim>\<open>captured\<close>. The boolean of the result tells whether the
  request was issued. The early \<^verbatim>\<open>return\<close> stands before the \<^verbatim>\<open>try\<close>, so the \<^verbatim>\<open>finally\<close>
  block does not run for it.
\<close>

definition fetchHistory_start_captured ::
  "bool \<Rightarrow> string option \<Rightarrow> chat_state \<Rightarrow> chat_state \<times> bool" where
  "fetchHistory_start_captured captured tok st =
     (if \<not> truthy tok \<or> captured then (st, False)
      else
        (st\<lparr>isLoading := True,
            requests := requests st @ [GET_chat_history (js_string tok)]\<rparr>, True))"

text \<open>
  The first step of a call through the function of the latest render, the one a consumer
  of the context gets once the state \<^verbatim>\<open>st\<close> is rendered: its closure holds the flag of
  \<^verbatim>\<open>st\<close>.
\<close>

definition fetchHistory_start :: "string option \<Rightarrow> chat_state \<Rightarrow> chat_state \<times> bool" where
  "fetchHistory_start tok st =
     (if \<not> truthy tok \<or> historyFetched st then (st, False)
      else
        (st\<lparr>isLoading := True,
            requests := requests st @ [GET_chat_history (js_string tok)]\<rparr>, True))"

text \<open>
  The second step runs when the request has ended: \<^verbatim>\<open>got\<close> is how
  \<^verbatim>\<open>getChatHistory(token)\<close> ends. It is the rest of the \<^verbatim>\<open>try\<close> block or the \<^verbatim>\<open>catch\<close> block,
  then the \<^verbatim>\<open>finally\<close> block.
\<close>

definition fetchHistory_settled :: "js_exn + ApiResponse list \<Rightarrow> chat_state \<Rightarrow> chat_state" where
  "fetchHistory_settled got st =
     (case got of
        Inr history \<Rightarrow>
          st\<lparr>messages := formattedHistory history, historyFetched := True,
             isLoading := False\<rparr>
      | Inl thrown \<Rightarrow>
          st\<lparr>messages := [], historyFetched := True, isLoading := False\<rparr>)"

text \<open>One call of \<^verbatim>\<open>fetchHistory()\<close> with nothing else between its two steps.\<close>

definition fetchHistory ::
  "string option \<Rightarrow> js_exn + ApiResponse list \<Rightarrow> chat_state \<Rightarrow> chat_state" where
  "fetchHistory tok got st =
     (case fetchHistory_start tok st of
        (st1, True) \<Rightarrow> fetchHistory_settled got st1
      | (st1, False) \<Rightarrow> st1)"

text \<open>
  Calls of \<^verbatim>\<open>fetchHistory()\<close> one after the other, each with the end of its request, and
  each made through the function of the render that follows the end of the call before,
  so that its closure holds the flag that call left. Calls through one retained function
  are not of this kind: they are \<^const>\<open>fetchHistory_start_captured\<close> with the flag of the
  render that made the function.
\<close>

definition fetchHistory_calls ::
  "string option \<Rightarrow> (js_exn + ApiResponse list) list \<Rightarrow> chat_state \<Rightarrow> chat_state" where
  "fetchHistory_calls tok gots st = fold (fetchHistory tok) gots st"

definition is_history_request :: "request \<Rightarrow> bool" where
  "is_history_request r = (case r of GET_chat_history t \<Rightarrow> True | _ \<Rightarrow> False)"

definition retrievals :: "chat_state \<Rightarrow> nat" where
  "retrievals st = length (filter is_history_request (requests st))"

subsection \<open>\<^verbatim>\<open>sendMessage\<close>\<close>

definition userMessage :: "string \<Rightarrow> string \<Rightarrow> ChatMessage" where
  "userMessage message' now =
     \<lparr>id' = None, question = message', answer = message', user_id = None,
      created_at = Some now, updated_at = None, isUser = True\<rparr>"

text \<open>\<^verbatim>\<open>response.created_at || new Date().toISOString()\<close>: an empty string is falsy too.\<close>

definition botMessage :: "string \<Rightarrow> string \<Rightarrow> ChatResponse \<Rightarrow> ChatMessage" where
  "botMessage message' now resp =
     \<lparr>id' = ChatResponse.id' resp,
      question = message',
      answer = ChatResponse.answer resp,
      user_id = ChatResponse.user_id resp,
      created_at =
        Some (if truthy (ChatResponse.created_at resp)
              then js_string (ChatResponse.created_at resp) else now),
      updated_at = ChatResponse.updated_at resp,
      isUser = False\<rparr>"

definition timeoutMessage :: "string \<Rightarrow> string \<Rightarrow> ChatMessage" where
  "timeoutMessage message' now =
     \<lparr>id' = None, question = message',
      answer = ''The response is taking longer than expected. Please wait while I process your request...'',
      user_id = None, created_at = Some now, updated_at = None, isUser = False\<rparr>"

definition errorMessage :: "string \<Rightarrow> string \<Rightarrow> ChatMessage" where
  "errorMessage message' now =
     \<lparr>id' = None, question = message',
      answer = ''I'm sorry, I'm currently unable to process your request. Please try again later.'',
      user_id = None, created_at = Some now, updated_at = None, isUser = False\<rparr>"

text \<open>
  What the race sees of the request it starts: \<^verbatim>\<open>outcome\<close> is how
  \<^verbatim>\<open>sendChatMessage(message, token!)\<close> ends, and \<^verbatim>\<open>in_time\<close> whether it ends within 60000 ms.
  A later end is seen by nothing: the promise is not read again after the race.
\<close>

definition raced_request ::
  "js_exn + ChatResponse \<Rightarrow> bool \<Rightarrow> (js_exn + ChatResponse) option" where
  "raced_request outcome in_time = (if in_time then Some outcome else None)"

text \<open>
  \<^verbatim>\<open>Promise.race([sendChatMessage(message, token!), timeoutPromise])\<close>: \<^verbatim>\<open>settled\<close> is how
  the request ends when it ends within 60000 ms, and \<^verbatim>\<open>None\<close> when the timer fires first
  and rejects with \<^verbatim>\<open>new Error('Request timeout')\<close>.
\<close>

definition race :: "(js_exn + ChatResponse) option \<Rightarrow> js_exn + ChatResponse" where
  "race settled =
     (case settled of None \<Rightarrow> Inl (Error ''Request timeout'') | Some outcome \<Rightarrow> outcome)"

text \<open>
  \<^verbatim>\<open>sendMessage\<close> suspends twice, so it is three steps on the state, and other updates
  may come between them. After the race it is either finished or, in the timeout branch
  of the \<^verbatim>\<open>catch\<close> block, waits for a second call of \<^verbatim>\<open>sendChatMessage\<close>, holding the
  \<^verbatim>\<open>timeoutMessage\<close> it made.
\<close>

datatype continuation = Finished | AwaitingRetry ChatMessage

text \<open>Up to the first \<^verbatim>\<open>await\<close>: the user's entry, the indicator, the request.\<close>

definition sendMessage_start ::
  "string option \<Rightarrow> string \<Rightarrow> string \<Rightarrow> chat_state \<Rightarrow> chat_state" where
  "sendMessage_start tok message' now st =
     st\<lparr>messages := messages st @ [userMessage message' now],
        isLoading := True,
        requests := requests st @ [GET_rag_query message' tok]\<rparr>"

text \<open>
  From the end of the race to the next suspension or the end. The \<^verbatim>\<open>finally\<close> block runs
  when the \<^verbatim>\<open>try\<close> statement is left: at once where the \<^verbatim>\<open>try\<close> block or the \<^verbatim>\<open>else\<close>
  branch of the \<^verbatim>\<open>catch\<close> block ends, but not yet where the \<^verbatim>\<open>catch\<close> block awaits.
\<close>

definition sendMessage_raced ::
  "string option \<Rightarrow> string \<Rightarrow> string \<Rightarrow> (js_exn + ChatResponse) option \<Rightarrow>
   chat_state \<Rightarrow> chat_state \<times> continuation" where
  "sendMessage_raced tok message' now settled st =
     (case race settled of
        Inr resp \<Rightarrow>
          (st\<lparr>messages := messages st @ [botMessage message' now resp],
              isLoading := False\<rparr>, Finished)
      | Inl thrown \<Rightarrow>
          if thrown = Error ''Request timeout''
          then
            (st\<lparr>messages := messages st @ [timeoutMessage message' now],
                requests := requests st @ [GET_rag_query message' tok]\<rparr>,
             AwaitingRetry (timeoutMessage message' now))
          else
            (st\<lparr>messages := messages st @ [errorMessage message' now],
                isLoading := False\<rparr>, Finished))"

text \<open>
  From the end of the second request to the end: the inner \<^verbatim>\<open>try\<close> and \<^verbatim>\<open>catch\<close>, then
  the \<^verbatim>\<open>finally\<close> block. \<^verbatim>\<open>retry\<close> is how the second request ends.
\<close>

definition sendMessage_retried ::
  "string \<Rightarrow> string \<Rightarrow> ChatMessage \<Rightarrow> js_exn + ChatResponse \<Rightarrow> chat_state \<Rightarrow> chat_state" where
  "sendMessage_retried message' now timeoutMsg retry st =
     (case retry of
        Inr resp \<Rightarrow>
          st\<lparr>messages :=
               map (\<lambda>msg. if answer msg = answer timeoutMsg
                          then botMessage message' now resp else msg) (messages st),
             isLoading := False\<rparr>
      | Inl retryError \<Rightarrow>
          st\<lparr>messages :=
               map (\<lambda>msg. if answer msg = answer timeoutMsg
                          then errorMessage message' now else msg) (messages st),
             isLoading := False\<rparr>)"

text \<open>
  One call of \<^verbatim>\<open>sendMessage\<close> with nothing else between its steps; \<^verbatim>\<open>t0\<close>, \<^verbatim>\<open>t1\<close> and
  \<^verbatim>\<open>t2\<close> are the times read at the three steps.
\<close>

definition sendMessage ::
  "string option \<Rightarrow> string \<Rightarrow> string \<Rightarrow> (js_exn + ChatResponse) option \<Rightarrow> string \<Rightarrow>
   js_exn + ChatResponse \<Rightarrow> string \<Rightarrow> chat_state \<Rightarrow> chat_state" where
  "sendMessage tok message' t0 settled t1 retry t2 st =
     (case sendMessage_raced tok message' t1 settled (sendMessage_start tok message' t0 st) of
        (st', Finished) \<Rightarrow> st'
      | (st', AwaitingRetry timeoutMsg) \<Rightarrow> sendMessage_retried message' t2 timeoutMsg retry st')"

subsection \<open>The effects\<close>

text \<open>The condition under which the first effect calls \<^verbatim>\<open>fetchHistory()\<close>.\<close>

definition fetch_effect_fires :: "User option \<Rightarrow> string option \<Rightarrow> chat_state \<Rightarrow> bool" where
  "fetch_effect_fires usr tok st = (usr \<noteq> None \<and> truthy tok \<and> \<not> historyFetched st)"

text \<open>The second effect, run when \<^verbatim>\<open>user\<close> has changed.\<close>

definition reset_effect :: "User option \<Rightarrow> chat_state \<Rightarrow> chat_state" where
  "reset_effect usr st =
     (if usr = None then st\<lparr>messages := [], historyFetched := False\<rparr> else st)"


section \<open>The history pairs\<close>

text \<open>Where the entries of item \<open>k\<close> stand in the concatenated pairs.\<close>

lemma concat_pairs_even:
  "k < length xs \<Longrightarrow> concat (map history_pair xs) ! (2 * k) = hd (history_pair (xs ! k))"
proof (induction xs arbitrary: k)
  case Nil
  then show ?case by simp
next
  case (Cons x xs)
  show ?case
  proof (cases k)
    case 0
    then show ?thesis by (simp add: history_pair_def)
  next
    case (Suc j)
    with Cons show ?thesis by (simp add: history_pair_def)
  qed
qed

lemma concat_pairs_odd:
  "k < length xs \<Longrightarrow> concat (map history_pair xs) ! (2 * k + 1) = hd (tl (history_pair (xs ! k)))"
proof (induction xs arbitrary: k)
  case Nil
  then show ?case by simp
next
  case (Cons x xs)
  show ?case
  proof (cases k)
    case 0
    then show ?thesis by (simp add: history_pair_def)
  next
    case (Suc j)
    with Cons show ?thesis by (simp add: history_pair_def)
  qed
qed

lemma length_concat_pairs: "length (concat (map history_pair xs)) = 2 * length xs"
  by (induction xs) (simp_all add: history_pair_def)

lemma fetchHistory_success:
  "truthy tok \<Longrightarrow> \<not> historyFetched st \<Longrightarrow>
   fetchHistory tok (Inr history) st =
     st\<lparr>isLoading := False, requests := requests st @ [GET_chat_history (js_string tok)],
        messages := formattedHistory history, historyFetched := True\<rparr>"
  by (simp add: fetchHistory_def fetchHistory_start_def fetchHistory_settled_def)

text \<open>
  Claim C1. When \<^verbatim>\<open>fetchHistory()\<close> succeeds (a token is held, the history was not
  fetched before, the request returns the list \<open>history\<close>), the transcript is made of
  the items in ascending order of \<^verbatim>\<open>id\<close> and of nothing else: it has two entries per
  item, and the entries \<open>2k\<close> and \<open>2k + 1\<close> are those of the \<open>k\<close>-th item of the sorted
  list, first the user's entry with the item's question, then the other side's entry
  with the item's answer. The sorted list is ordered by \<^verbatim>\<open>id\<close> and is a permutation of
  what the backend returned, and when no two items share an \<^verbatim>\<open>id\<close> the transcript is
  the same for every order in which the backend returns them. The witness is the
  history \<^verbatim>\<open>[{id:1,q:"A",a:"B"}, {id:3,q:"C",a:"D"}]\<close> of the specification, returned in
  either order. The copy of the component in \<^verbatim>\<open>unnamed/part_000\<close> differs in one field
  that the claim does not name: its user's entry has the empty string as \<^verbatim>\<open>answer\<close>.
\<close>

theorem fetchHistory_pairs_sorted:
  assumes "truthy tok" and "\<not> historyFetched st"
  shows "sorted (map ApiResponse.id' (sort_key ApiResponse.id' history))
    \<and> mset (sort_key ApiResponse.id' history) = mset history
    \<and> length (messages (fetchHistory tok (Inr history) st)) = 2 * length history
    \<and> (\<forall>k<length history.
          (let item = sort_key ApiResponse.id' history ! k;
               q = messages (fetchHistory tok (Inr history) st) ! (2 * k);
               a = messages (fetchHistory tok (Inr history) st) ! (2 * k + 1)
           in isUser q \<and> question q = ApiResponse.question item
              \<and> ChatMessage.id' q = Some (ApiResponse.id' item)
              \<and> \<not> isUser a \<and> answer a = ApiResponse.answer item
              \<and> ChatMessage.id' a = Some (ApiResponse.id' item)))
    \<and> (\<forall>history'. mset history' = mset history \<and> distinct (map ApiResponse.id' history) \<longrightarrow>
          messages (fetchHistory tok (Inr history') st)
            = messages (fetchHistory tok (Inr history) st))"
proof -
  let ?s = "sort_key ApiResponse.id' history"
  have m: "messages (fetchHistory tok (Inr h) st) = concat (map history_pair (sort_key ApiResponse.id' h))" for h
    using assms by (simp add: fetchHistory_success formattedHistory_def)
  have len: "length ?s = length history" by simp
  have pairs: "\<forall>k<length history.
          (let item = ?s ! k;
               q = messages (fetchHistory tok (Inr history) st) ! (2 * k);
               a = messages (fetchHistory tok (Inr history) st) ! (2 * k + 1)
           in isUser q \<and> question q = ApiResponse.question item
              \<and> ChatMessage.id' q = Some (ApiResponse.id' item)
              \<and> \<not> isUser a \<and> answer a = ApiResponse.answer item
              \<and> ChatMessage.id' a = Some (ApiResponse.id' item))"
  proof (intro allI impI)
    fix k assume "k < length history"
    then have k: "k < length ?s" by simp
    show "let item = ?s ! k;
               q = messages (fetchHistory tok (Inr history) st) ! (2 * k);
               a = messages (fetchHistory tok (Inr history) st) ! (2 * k + 1)
           in isUser q \<and> question q = ApiResponse.question item
              \<and> ChatMessage.id' q = Some (ApiResponse.id' item)
              \<and> \<not> isUser a \<and> answer a = ApiResponse.answer item
              \<and> ChatMessage.id' a = Some (ApiResponse.id' item)"
      unfolding m Let_def concat_pairs_even [OF k] concat_pairs_odd [OF k]
      by (simp add: history_pair_def)
  qed
  have perm: "\<forall>history'. mset history' = mset history \<and> distinct (map ApiResponse.id' history) \<longrightarrow>
          messages (fetchHistory tok (Inr history') st)
            = messages (fetchHistory tok (Inr history) st)"
  proof (intro allI impI)
    fix h' assume h: "mset h' = mset history \<and> distinct (map ApiResponse.id' history)"
    then have "inj_on ApiResponse.id' (set h')"
      by (metis distinct_map mset_eq_setD)
    with h have "sort_key ApiResponse.id' h' = ?s"
      by (metis sort_key_eq_sort_key)
    then show "messages (fetchHistory tok (Inr h') st) = messages (fetchHistory tok (Inr history) st)"
      by (simp add: m)
  qed
  have srt: "sorted (map ApiResponse.id' ?s)" by simp
  have prm: "mset ?s = mset history" by simp
  have lng: "length (messages (fetchHistory tok (Inr history) st)) = 2 * length history"
    by (simp add: m length_concat_pairs)
  show ?thesis
    by (intro conjI srt prm lng pairs perm)
qed

theorem fetchHistory_pairs_sorted_witness:
  "truthy (Some ''jwt'') \<and> \<not> historyFetched initial_chat
   \<and> map (\<lambda>m. (isUser m, if isUser m then question m else answer m))
        (messages (fetchHistory (Some ''jwt'')
           (Inr [\<lparr>ApiResponse.id' = 3, question = ''C'', answer = ''D'', user_id = ''u'',
                   created_at = ''t3'', updated_at = None\<rparr>,
                 \<lparr>ApiResponse.id' = 1, question = ''A'', answer = ''B'', user_id = ''u'',
                   created_at = ''t1'', updated_at = None\<rparr>]) initial_chat))
      = [(True, ''A''), (False, ''B''), (True, ''C''), (False, ''D'')]
   \<and> messages (fetchHistory (Some ''jwt'')
           (Inr [\<lparr>ApiResponse.id' = 1, question = ''A'', answer = ''B'', user_id = ''u'',
                   created_at = ''t1'', updated_at = None\<rparr>,
                 \<lparr>ApiResponse.id' = 3, question = ''C'', answer = ''D'', user_id = ''u'',
                   created_at = ''t3'', updated_at = None\<rparr>]) initial_chat)
     = messages (fetchHistory (Some ''jwt'')
           (Inr [\<lparr>ApiResponse.id' = 3, question = ''C'', answer = ''D'', user_id = ''u'',
                   created_at = ''t3'', updated_at = None\<rparr>,
                 \<lparr>ApiResponse.id' = 1, question = ''A'', answer = ''B'', user_id = ''u'',
                   created_at = ''t1'', updated_at = None\<rparr>]) initial_chat)"
proof -
  define i1 where "i1 = \<lparr>ApiResponse.id' = 1, question = ''A'', answer = ''B'', user_id = ''u'',
              created_at = ''t1'', updated_at = None\<rparr>"
  define i3 where "i3 = \<lparr>ApiResponse.id' = 3, question = ''C'', answer = ''D'', user_id = ''u'',
              created_at = ''t3'', updated_at = None\<rparr>"
  define ms where "ms = messages (fetchHistory (Some ''jwt'') (Inr [i3, i1]) initial_chat)"
  have h1: "truthy (Some ''jwt'')" by (simp add: truthy_def)
  have h2: "\<not> historyFetched initial_chat" by (simp add: initial_chat_def)
  note T = fetchHistory_pairs_sorted [OF h1 h2, of "[i3, i1]"]
  have s: "sort_key ApiResponse.id' [i3, i1] = [i1, i3]" by (simp add: i1_def i3_def)
  have len: "length ms = 4"
    using T [THEN conjunct2, THEN conjunct2, THEN conjunct1] by (simp add: ms_def)
  note P = T [THEN conjunct2, THEN conjunct2, THEN conjunct2, THEN conjunct1, rule_format]
  have e0: "isUser (ms ! 0) \<and> question (ms ! 0) = ''A'' \<and> \<not> isUser (ms ! 1) \<and> answer (ms ! 1) = ''B''"
    using P [of 0] unfolding s Let_def ms_def [symmetric] by (simp add: i1_def)
  have e1: "isUser (ms ! 2) \<and> question (ms ! 2) = ''C'' \<and> \<not> isUser (ms ! 3) \<and> answer (ms ! 3) = ''D''"
    using P [of 1] unfolding s Let_def ms_def [symmetric] by (simp add: i3_def)
  obtain a b c d where abcd: "ms = [a, b, c, d]"
    using len by (auto simp: length_Suc_conv numeral_eq_Suc)
  have m: "map (\<lambda>m. (isUser m, if isUser m then question m else answer m)) ms
      = [(True, ''A''), (False, ''B''), (True, ''C''), (False, ''D'')]"
    using e0 e1 unfolding abcd by simp
  have perm: "messages (fetchHistory (Some ''jwt'') (Inr [i1, i3]) initial_chat) = ms"
    unfolding ms_def
    by (rule T [THEN conjunct2, THEN conjunct2, THEN conjunct2, THEN conjunct2, rule_format])
       (simp add: i1_def i3_def)
  show ?thesis
    using h1 h2 m perm unfolding ms_def i1_def i3_def by blast
qed


section \<open>Startup recovery\<close>

text \<open>
  Claim C2, as the code has it. The effect tests \<^verbatim>\<open>if (savedToken)\<close>, so only a
  non-empty string under \<^verbatim>\<open>token\<close> is a stored credential for it. The time is
  \<^verbatim>\<open>Date.now()\<close> in milliseconds and \<^verbatim>\<open>exp\<close> counts seconds, so "\<^verbatim>\<open>exp\<close> is not later than
  now" is \<open>exp * 1000 \<le> now\<close>. When a non-empty stored credential does not decode, or
  decodes with such an \<^verbatim>\<open>exp\<close>, startup recovery ends with neither identity nor
  credential and with the entry removed; when it decodes with a later \<^verbatim>\<open>exp\<close>, it ends
  holding that credential and the decoded identity, the entry kept. An entry that holds
  the empty string is taken as absent: recovery ends with neither identity nor
  credential, and the entry stays. In every case no request has been issued and the
  loading flag is down. The witness decodes one stored token, expired at one time of
  start and valid at an earlier one, fails to decode another, and finds an empty entry.
\<close>

theorem startup_recovery:
  assumes "store ''token'' = Some savedToken"
  shows
    "(savedToken \<noteq> []
        \<and> ((\<exists>thrown. jwtDecode savedToken = Inl thrown)
          \<or> (\<exists>decoded. jwtDecode savedToken = Inr decoded \<and> exp decoded * 1000 \<le> now))
      \<longrightarrow> user (startup jwtDecode now store) = None
          \<and> token (startup jwtDecode now store) = None
          \<and> sessionStorage (startup jwtDecode now store) ''token'' = None)
     \<and> (\<forall>decoded. savedToken \<noteq> [] \<and> jwtDecode savedToken = Inr decoded
            \<and> now < exp decoded * 1000
      \<longrightarrow> user (startup jwtDecode now store) = Some decoded
          \<and> token (startup jwtDecode now store) = Some savedToken
          \<and> sessionStorage (startup jwtDecode now store) ''token'' = Some savedToken)
     \<and> (savedToken = []
      \<longrightarrow> user (startup jwtDecode now store) = None
          \<and> token (startup jwtDecode now store) = None
          \<and> sessionStorage (startup jwtDecode now store) ''token'' = Some [])
     \<and> auth_state.requests (startup jwtDecode now store) = []
     \<and> \<not> auth_state.isLoading (startup jwtDecode now store)"
  using assms
  by (auto simp: startup_def AuthProvider_mount_def initial_auth_def Let_def split: sum.splits)

text \<open>
  The claim as stated covers every entry stored under \<^verbatim>\<open>token\<close> that does not decode.
  The empty string is such an entry (\<^verbatim>\<open>jwt-decode\<close> throws on it, as the decoder here
  does), and the effect neither decodes nor removes it: after startup recovery the entry
  is still there.
\<close>

theorem startup_empty_entry_counterexample:
  "user (startup (\<lambda>t. Inl (Error ''Invalid token specified: missing part #2''))
           1800000000000 [''token'' \<mapsto> []]) = None
   \<and> token (startup (\<lambda>t. Inl (Error ''Invalid token specified: missing part #2''))
           1800000000000 [''token'' \<mapsto> []]) = None
   \<and> sessionStorage (startup (\<lambda>t. Inl (Error ''Invalid token specified: missing part #2''))
           1800000000000 [''token'' \<mapsto> []]) ''token'' = Some []"
  by (simp add: startup_def AuthProvider_mount_def initial_auth_def)

theorem startup_recovery_witness:
  "user (startup (\<lambda>t. if t = ''old.jwt'' then Inr \<lparr>email = ''a@b.c'', username = ''a'', exp = 1700000000\<rparr>
                        else Inl (Error ''Invalid token specified''))
           1800000000000 [''token'' \<mapsto> ''old.jwt'']) = None
   \<and> token (startup (\<lambda>t. if t = ''old.jwt'' then Inr \<lparr>email = ''a@b.c'', username = ''a'', exp = 1700000000\<rparr>
                        else Inl (Error ''Invalid token specified''))
           1800000000000 [''token'' \<mapsto> ''old.jwt'']) = None
   \<and> sessionStorage (startup (\<lambda>t. if t = ''old.jwt'' then Inr \<lparr>email = ''a@b.c'', username = ''a'', exp = 1700000000\<rparr>
                        else Inl (Error ''Invalid token specified''))
           1800000000000 [''token'' \<mapsto> ''old.jwt'']) ''token'' = None
   \<and> token (startup (\<lambda>t. if t = ''old.jwt'' then Inr \<lparr>email = ''a@b.c'', username = ''a'', exp = 1700000000\<rparr>
                        else Inl (Error ''Invalid token specified''))
           1600000000000 [''token'' \<mapsto> ''old.jwt'']) = Some ''old.jwt''
   \<and> sessionStorage (startup (\<lambda>t. if t = ''old.jwt'' then Inr \<lparr>email = ''a@b.c'', username = ''a'', exp = 1700000000\<rparr>
                        else Inl (Error ''Invalid token specified''))
           1800000000000 [''token'' \<mapsto> ''garbage'']) ''token'' = None
   \<and> sessionStorage (startup (\<lambda>t. if t = ''old.jwt'' then Inr \<lparr>email = ''a@b.c'', username = ''a'', exp = 1700000000\<rparr>
                        else Inl (Error ''Invalid token specified''))
           1800000000000 [''token'' \<mapsto> []]) ''token'' = Some []"
proof -
  define dec :: "string \<Rightarrow> js_exn + User" where
    "dec = (\<lambda>t. if t = ''old.jwt'' then Inr \<lparr>email = ''a@b.c'', username = ''a'', exp = 1700000000\<rparr>
                        else Inl (Error ''Invalid token specified''))"
  have s: "[''token'' \<mapsto> ''old.jwt''] ''token'' = Some ''old.jwt''" by simp
  have g: "[''token'' \<mapsto> ''garbage''] ''token'' = Some ''garbage''" by simp
  have e: "[''token'' \<mapsto> []] ''token'' = Some []" by simp
  have late: "''old.jwt'' \<noteq> []
        \<and> ((\<exists>thrown. dec ''old.jwt'' = Inl thrown)
          \<or> (\<exists>decoded. dec ''old.jwt'' = Inr decoded \<and> exp decoded * 1000 \<le> 1800000000000))"
    by (simp add: dec_def)
  have early: "''old.jwt'' \<noteq> []
      \<and> dec ''old.jwt'' = Inr \<lparr>email = ''a@b.c'', username = ''a'', exp = 1700000000\<rparr>
      \<and> 1600000000000 < exp \<lparr>email = ''a@b.c'', username = ''a'', exp = 1700000000\<rparr> * 1000"
    by (simp add: dec_def)
  have bad: "''garbage'' \<noteq> []
        \<and> ((\<exists>thrown. dec ''garbage'' = Inl thrown)
          \<or> (\<exists>decoded. dec ''garbage'' = Inr decoded \<and> exp decoded * 1000 \<le> 1800000000000))"
    by (simp add: dec_def)
  note A = startup_recovery [where store = "[''token'' \<mapsto> ''old.jwt'']" and jwtDecode = dec
      and now = 1800000000000, OF s, THEN conjunct1, rule_format, OF late]
  note B = startup_recovery [where store = "[''token'' \<mapsto> ''old.jwt'']" and jwtDecode = dec
      and now = 1600000000000, OF s, THEN conjunct2, THEN conjunct1, rule_format, OF early]
  note C = startup_recovery [where store = "[''token'' \<mapsto> ''garbage'']" and jwtDecode = dec
      and now = 1800000000000, OF g, THEN conjunct1, rule_format, OF bad]
  note D = startup_recovery [where store = "[''token'' \<mapsto> []]" and jwtDecode = dec
      and now = 1800000000000, OF e, THEN conjunct2, THEN conjunct2, THEN conjunct1,
      rule_format, OF refl]
  show ?thesis
    unfolding dec_def [symmetric]
    using A B C D by blast
qed


section \<open>\<^verbatim>\<open>login\<close>\<close>

text \<open>The four ways in which \<^verbatim>\<open>login\<close> ends, and the state each leaves.\<close>

lemma login_unconfigured:
  "\<not> truthy env \<Longrightarrow>
   login env jwtDecode post email' password st =
     (st\<lparr>auth_state.isLoading := False,
         error := Some ''API configuration missing. Please check your .env file.''\<rparr>, False)"
  by (simp add: login_def Let_def)

lemma login_rejected:
  "truthy env \<Longrightarrow> post = Inl e \<Longrightarrow>
   login env jwtDecode post email' password st =
     (st\<lparr>auth_state.isLoading := False,
         error := Some (login_error env (Error (message (response_interceptor e)))),
         auth_state.requests := auth_state.requests st @ [POST_login email' password]\<rparr>, False)"
  by (simp add: login_def Let_def loginUser_def api_call_def)

lemma login_undecodable:
  "truthy env \<Longrightarrow> post = Inr resp \<Longrightarrow> jwtDecode (access_token resp) = Inl thrown \<Longrightarrow>
   login env jwtDecode post email' password st =
     (st\<lparr>auth_state.isLoading := False,
         error := Some (login_error env thrown),
         auth_state.requests := auth_state.requests st @ [POST_login email' password]\<rparr>, False)"
  by (simp add: login_def Let_def loginUser_def api_call_def)

lemma login_accepted:
  "truthy env \<Longrightarrow> post = Inr resp \<Longrightarrow> jwtDecode (access_token resp) = Inr decoded \<Longrightarrow>
   login env jwtDecode post email' password st =
     (st\<lparr>auth_state.isLoading := False, error := None,
         auth_state.requests := auth_state.requests st @ [POST_login email' password],
         token := Some (access_token resp), user := Some decoded,
         sessionStorage := (sessionStorage st)(''token'' \<mapsto> access_token resp)\<rparr>, True)"
  by (simp add: login_def Let_def loginUser_def api_call_def)

lemma login_cases:
  obtains (unconfigured) "\<not> truthy env"
  | (rejected) e where "truthy env" "post = Inl e"
  | (undecodable) resp thrown where "truthy env" "post = Inr resp" "jwtDecode (access_token resp) = Inl thrown"
  | (accepted) resp decoded where "truthy env" "post = Inr resp" "jwtDecode (access_token resp) = Inr decoded"
proof (cases "truthy env")
  case False
  then show ?thesis by (rule unconfigured)
next
  case True
  show ?thesis
  proof (cases post)
    case (Inl e)
    with True show ?thesis by (rule rejected)
  next
    case (Inr resp)
    show ?thesis
    proof (cases "jwtDecode (access_token resp)")
      case (Inl thrown)
      with True Inr show ?thesis by (rule undecodable)
    next
      case (Inr decoded)
      with True \<open>post = Inr resp\<close> show ?thesis by (rule accepted)
    qed
  qed
qed

lemma login_error_nonempty: "login_error env thrown \<noteq> []"
  by (cases thrown) (simp_all add: login_error_def)

lemma login_failure_frame:
  assumes "\<not> snd (login env jwtDecode post email' password st)"
  shows "user (fst (login env jwtDecode post email' password st)) = user st
    \<and> token (fst (login env jwtDecode post email' password st)) = token st
    \<and> sessionStorage (fst (login env jwtDecode post email' password st)) = sessionStorage st
    \<and> \<not> auth_state.isLoading (fst (login env jwtDecode post email' password st))
    \<and> (\<exists>msg. error (fst (login env jwtDecode post email' password st)) = Some msg \<and> msg \<noteq> [])"
proof (cases rule: login_cases [where env = env and post = post and jwtDecode = jwtDecode])
  case unconfigured
  then show ?thesis by (simp add: login_unconfigured)
next
  case (rejected e)
  then show ?thesis by (simp add: login_rejected login_error_nonempty)
next
  case (undecodable resp thrown)
  then show ?thesis by (simp add: login_undecodable login_error_nonempty)
next
  case (accepted resp decoded)
  with assms show ?thesis by (simp add: login_accepted)
qed

lemma login_returns_true_iff:
  "snd (login env jwtDecode post email' password st) \<longleftrightarrow>
     truthy env \<and> (\<exists>resp decoded. post = Inr resp \<and> jwtDecode (access_token resp) = Inr decoded)"
proof (cases rule: login_cases [where env = env and post = post and jwtDecode = jwtDecode])
  case unconfigured
  then show ?thesis by (simp add: login_unconfigured)
next
  case (rejected e)
  then show ?thesis by (simp add: login_rejected)
next
  case (undecodable resp thrown)
  then show ?thesis by (simp add: login_undecodable)
next
  case (accepted resp decoded)
  then show ?thesis by (simp add: login_accepted)
qed

lemma interceptor_network:
  "code e = Some ''ERR_NETWORK'' \<Longrightarrow>
   login_error env (Error (message (response_interceptor e))) =
     ''Cannot connect to server. Please ensure the backend API is running at '' @ js_string env"
  by (simp add: response_interceptor_def login_error_def)

lemma interceptor_timeout:
  "code e = Some ''ECONNABORTED'' \<Longrightarrow>
   login_error env (Error (message (response_interceptor e))) =
     ''Request timeout. Please check your internet connection and try again.''"
  by (simp add: response_interceptor_def login_error_def)

lemma interceptor_status:
  "code e \<noteq> Some ''ECONNABORTED'' \<Longrightarrow> code e \<noteq> Some ''ERR_NETWORK'' \<Longrightarrow> response e \<noteq> None \<Longrightarrow>
   login_error env (Error (message (response_interceptor e))) = login_error env (Error (message e))"
  by (auto simp: response_interceptor_def)

lemma status_401: "login_error env (Error ''Request failed with status code 401'') =
   ''Invalid credentials. Please check your email and password.''"
  by (simp add: login_error_def)

lemma decode_msg: "login_error env (Error ''Invalid token specified: missing part #2'') =
   ''Login failed: Invalid token specified: missing part #2''"
  by (simp add: login_error_def)

text \<open>
  Claim C3, as the code has it. \<^verbatim>\<open>login\<close> returns a boolean for every end of the request
  and of the decoding: the model has no other kind of result, because every \<^verbatim>\<open>throw\<close>
  is caught. It returns \<^verbatim>\<open>true\<close> exactly when the address is configured, the request
  succeeds and the returned token decodes. Whenever it returns \<^verbatim>\<open>false\<close>, identity,
  credential and session storage are what they were, the loading flag is down, and the
  error field holds a non-empty text. The text follows the cause: a missing address, a
  network error (\<^verbatim>\<open>ERR_NETWORK\<close>), a timeout of the request (\<^verbatim>\<open>ECONNABORTED\<close>), a response
  with a status (the text chosen from the message of the error, "invalid credentials"
  for status 401), and a token that does not decode. For the last the text is chosen
  from the message the decoder throws, by the same chain of substring tests as for any
  other thrown error: a message with none of the substrings gives \<^verbatim>\<open>Login failed: \<close>
  followed by the message.
\<close>

theorem login_failure_reported:
  fixes env jwtDecode post email' password st
  defines "r \<equiv> login env jwtDecode post email' password st"
  shows
    "(snd r \<longleftrightarrow>
        truthy env \<and> (\<exists>resp decoded. post = Inr resp \<and> jwtDecode (access_token resp) = Inr decoded))
     \<and> (\<not> snd r \<longrightarrow>
          user (fst r) = user st \<and> token (fst r) = token st
          \<and> sessionStorage (fst r) = sessionStorage st
          \<and> \<not> auth_state.isLoading (fst r)
          \<and> (\<exists>msg. error (fst r) = Some msg \<and> msg \<noteq> []))
     \<and> (\<not> truthy env \<longrightarrow>
          error (fst r) = Some ''API configuration missing. Please check your .env file.'')
     \<and> (\<forall>e. truthy env \<and> post = Inl e \<and> code e = Some ''ERR_NETWORK'' \<longrightarrow>
          error (fst r) =
            Some (''Cannot connect to server. Please ensure the backend API is running at ''
                  @ js_string env))
     \<and> (\<forall>e. truthy env \<and> post = Inl e \<and> code e = Some ''ECONNABORTED'' \<longrightarrow>
          error (fst r) =
            Some ''Request timeout. Please check your internet connection and try again.'')
     \<and> (\<forall>e. truthy env \<and> post = Inl e
            \<and> code e \<noteq> Some ''ECONNABORTED'' \<and> code e \<noteq> Some ''ERR_NETWORK''
            \<and> response e \<noteq> None \<longrightarrow>
          error (fst r) = Some (login_error env (Error (message e)))
          \<and> (message e = ''Request failed with status code 401'' \<longrightarrow>
                error (fst r) =
                  Some ''Invalid credentials. Please check your email and password.''))
     \<and> (\<forall>resp thrown. truthy env \<and> post = Inr resp
            \<and> jwtDecode (access_token resp) = Inl thrown \<longrightarrow>
          error (fst r) = Some (login_error env thrown)
          \<and> (\<forall>m. thrown = Error m
                \<and> \<not> str_includes m ''Network Error'' \<and> \<not> str_includes m ''ERR_NETWORK''
                \<and> \<not> str_includes m ''401'' \<and> \<not> str_includes m ''Unauthorized''
                \<and> \<not> str_includes m ''timeout'' \<longrightarrow>
              error (fst r) = Some (''Login failed: '' @ m)))"
proof -
  have a: "snd r \<longleftrightarrow>
        truthy env \<and> (\<exists>resp decoded. post = Inr resp \<and> jwtDecode (access_token resp) = Inr decoded)"
    unfolding r_def by (rule login_returns_true_iff)
  have b: "\<not> snd r \<longrightarrow>
          user (fst r) = user st \<and> token (fst r) = token st
          \<and> sessionStorage (fst r) = sessionStorage st
          \<and> \<not> auth_state.isLoading (fst r)
          \<and> (\<exists>msg. error (fst r) = Some msg \<and> msg \<noteq> [])"
    unfolding r_def using login_failure_frame by blast
  have c: "\<not> truthy env \<longrightarrow>
          error (fst r) = Some ''API configuration missing. Please check your .env file.''"
    unfolding r_def by (simp add: login_unconfigured)
  have d: "\<forall>e. truthy env \<and> post = Inl e \<and> code e = Some ''ERR_NETWORK'' \<longrightarrow>
          error (fst r) =
            Some (''Cannot connect to server. Please ensure the backend API is running at ''
                  @ js_string env)"
    unfolding r_def by (simp add: login_rejected interceptor_network)
  have e: "\<forall>e. truthy env \<and> post = Inl e \<and> code e = Some ''ECONNABORTED'' \<longrightarrow>
          error (fst r) =
            Some ''Request timeout. Please check your internet connection and try again.''"
    unfolding r_def by (simp add: login_rejected interceptor_timeout)
  have f: "\<forall>e. truthy env \<and> post = Inl e
            \<and> code e \<noteq> Some ''ECONNABORTED'' \<and> code e \<noteq> Some ''ERR_NETWORK''
            \<and> response e \<noteq> None \<longrightarrow>
          error (fst r) = Some (login_error env (Error (message e)))
          \<and> (message e = ''Request failed with status code 401'' \<longrightarrow>
                error (fst r) =
                  Some ''Invalid credentials. Please check your email and password.'')"
    unfolding r_def by (simp add: login_rejected interceptor_status status_401)
  have g: "\<forall>resp thrown. truthy env \<and> post = Inr resp
            \<and> jwtDecode (access_token resp) = Inl thrown \<longrightarrow>
          error (fst r) = Some (login_error env thrown)
          \<and> (\<forall>m. thrown = Error m
                \<and> \<not> str_includes m ''Network Error'' \<and> \<not> str_includes m ''ERR_NETWORK''
                \<and> \<not> str_includes m ''401'' \<and> \<not> str_includes m ''Unauthorized''
                \<and> \<not> str_includes m ''timeout'' \<longrightarrow>
              error (fst r) = Some (''Login failed: '' @ m))"
    unfolding r_def by (simp add: login_undecodable login_error_def)
  show ?thesis
    by (intro conjI a b c d e f g)
qed

text \<open>
  The claim as stated says that a decode failure is treated like an authentication
  error. It is not: with the message of \<^verbatim>\<open>jwt-decode\<close> for a token without a payload
  part, the error field is \<^verbatim>\<open>Login failed: Invalid token specified: missing part #2\<close>,
  while status 401 gives \<^verbatim>\<open>Invalid credentials. Please check your email and password.\<close>
\<close>

theorem login_decode_failure_counterexample:
  "error (fst (login (Some ''http://localhost:8000'')
        (\<lambda>t. Inl (Error ''Invalid token specified: missing part #2''))
        (Inr \<lparr>access_token = ''garbage'', token_type = ''bearer''\<rparr>)
        ''a@b.c'' ''pw'' (initial_auth Map.empty)))
     = Some ''Login failed: Invalid token specified: missing part #2''
   \<and> error (fst (login (Some ''http://localhost:8000'')
        (\<lambda>t. Inl (Error ''Invalid token specified: missing part #2''))
        (Inl \<lparr>code = Some ''ERR_BAD_REQUEST'', response = Some 401,
               message = ''Request failed with status code 401''\<rparr>)
        ''a@b.c'' ''pw'' (initial_auth Map.empty)))
     = Some ''Invalid credentials. Please check your email and password.''
   \<and> error (fst (login (Some ''http://localhost:8000'')
        (\<lambda>t. Inl (Error ''Invalid token specified: missing part #2''))
        (Inr \<lparr>access_token = ''garbage'', token_type = ''bearer''\<rparr>)
        ''a@b.c'' ''pw'' (initial_auth Map.empty)))
     \<noteq> error (fst (login (Some ''http://localhost:8000'')
        (\<lambda>t. Inl (Error ''Invalid token specified: missing part #2''))
        (Inl \<lparr>code = Some ''ERR_BAD_REQUEST'', response = Some 401,
               message = ''Request failed with status code 401''\<rparr>)
        ''a@b.c'' ''pw'' (initial_auth Map.empty)))"
proof -
  have t: "truthy (Some ''http://localhost:8000'')" by (simp add: truthy_def)
  have i: "login_error (Some ''http://localhost:8000'')
      (Error (message (response_interceptor \<lparr>code = Some ''ERR_BAD_REQUEST'', response = Some 401,
               message = ''Request failed with status code 401''\<rparr>)))
     = ''Invalid credentials. Please check your email and password.''"
    by (simp add: interceptor_status status_401)
  show ?thesis
    by (simp add: login_undecodable [OF t] login_rejected [OF t] decode_msg i)
qed

theorem login_failure_reported_witness:
  "\<not> snd (login (Some ''http://localhost:8000'')
        (\<lambda>t. Inl (Error ''Invalid token specified: missing part #2''))
        (Inr \<lparr>access_token = ''garbage'', token_type = ''bearer''\<rparr>)
        ''a@b.c'' ''pw'' (initial_auth Map.empty))
   \<and> user (fst (login (Some ''http://localhost:8000'')
        (\<lambda>t. Inl (Error ''Invalid token specified: missing part #2''))
        (Inr \<lparr>access_token = ''garbage'', token_type = ''bearer''\<rparr>)
        ''a@b.c'' ''pw'' (initial_auth Map.empty))) = None
   \<and> token (fst (login (Some ''http://localhost:8000'')
        (\<lambda>t. Inl (Error ''Invalid token specified: missing part #2''))
        (Inr \<lparr>access_token = ''garbage'', token_type = ''bearer''\<rparr>)
        ''a@b.c'' ''pw'' (initial_auth Map.empty))) = None
   \<and> sessionStorage (fst (login (Some ''http://localhost:8000'')
        (\<lambda>t. Inl (Error ''Invalid token specified: missing part #2''))
        (Inr \<lparr>access_token = ''garbage'', token_type = ''bearer''\<rparr>)
        ''a@b.c'' ''pw'' (initial_auth Map.empty))) ''token'' = None
   \<and> error (fst (login (Some ''http://localhost:8000'')
        (\<lambda>t. Inl (Error ''Invalid token specified: missing part #2''))
        (Inr \<lparr>access_token = ''garbage'', token_type = ''bearer''\<rparr>)
        ''a@b.c'' ''pw'' (initial_auth Map.empty)))
     = Some ''Login failed: Invalid token specified: missing part #2''"
proof -
  define env where "env = Some ''http://localhost:8000''"
  define dec :: "string \<Rightarrow> js_exn + User" where
    "dec = (\<lambda>t. Inl (Error ''Invalid token specified: missing part #2''))"
  define resp where "resp = \<lparr>access_token = ''garbage'', token_type = ''bearer''\<rparr>"
  define r where "r = login env dec (Inr resp) ''a@b.c'' ''pw'' (initial_auth Map.empty)"
  note T = login_failure_reported [of env dec "Inr resp" "''a@b.c''" "''pw''" "initial_auth Map.empty",
      folded r_def]
  have t: "truthy env" by (simp add: env_def truthy_def)
  have no: "\<not> (truthy env \<and> (\<exists>resp' decoded. Inr resp = Inr resp' \<and> dec (access_token resp') = Inr decoded))"
    by (simp add: dec_def)
  have failed: "\<not> snd r"
    using T [THEN conjunct1] no by blast
  have frame: "user (fst r) = user (initial_auth Map.empty) \<and> token (fst r) = token (initial_auth Map.empty)
          \<and> sessionStorage (fst r) = sessionStorage (initial_auth Map.empty)"
    using T [THEN conjunct2, THEN conjunct1] failed by blast
  have nokey: "\<not> str_includes ''Invalid token specified: missing part #2'' ''Network Error''
      \<and> \<not> str_includes ''Invalid token specified: missing part #2'' ''ERR_NETWORK''
      \<and> \<not> str_includes ''Invalid token specified: missing part #2'' ''401''
      \<and> \<not> str_includes ''Invalid token specified: missing part #2'' ''Unauthorized''
      \<and> \<not> str_includes ''Invalid token specified: missing part #2'' ''timeout''"
    by simp
  have d: "dec (access_token resp) = Inl (Error ''Invalid token specified: missing part #2'')"
    by (simp add: dec_def)
  have msg: "error (fst r) = Some (''Login failed: '' @ ''Invalid token specified: missing part #2'')"
    using T [THEN conjunct2, THEN conjunct2, THEN conjunct2, THEN conjunct2, THEN conjunct2,
        THEN conjunct2, rule_format, of resp "Error ''Invalid token specified: missing part #2''",
        THEN conjunct2, rule_format, of "''Invalid token specified: missing part #2''"]
      t d nokey by blast
  have "\<not> snd r \<and> user (fst r) = None \<and> token (fst r) = None
      \<and> sessionStorage (fst r) ''token'' = None
      \<and> error (fst r) = Some ''Login failed: Invalid token specified: missing part #2''"
    using failed frame msg by (simp add: initial_auth_def)
  then show ?thesis
    unfolding r_def env_def dec_def resp_def .
qed

text \<open>
  Claim C8. Startup recovery compares \<^verbatim>\<open>exp\<close> with the time; \<^verbatim>\<open>login\<close> does not read
  \<^verbatim>\<open>exp\<close> at all (it takes no time as input). A token whose \<^verbatim>\<open>exp\<close> lies in the past is
  discarded when found in session storage at start, and is held, with its identity, and
  stored when the backend returns it to \<^verbatim>\<open>login\<close>: the invariant of the claim does not
  hold after \<^verbatim>\<open>login\<close>.
\<close>

theorem login_keeps_expired_token:
  "user (startup (\<lambda>t. Inr \<lparr>email = ''a@b.c'', username = ''a'', exp = 1700000000\<rparr>)
           1800000000000 [''token'' \<mapsto> ''old.jwt'']) = None
   \<and> snd (login (Some ''http://localhost:8000'')
        (\<lambda>t. Inr \<lparr>email = ''a@b.c'', username = ''a'', exp = 1700000000\<rparr>)
        (Inr \<lparr>access_token = ''old.jwt'', token_type = ''bearer''\<rparr>)
        ''a@b.c'' ''pw'' (initial_auth Map.empty))
   \<and> token (fst (login (Some ''http://localhost:8000'')
        (\<lambda>t. Inr \<lparr>email = ''a@b.c'', username = ''a'', exp = 1700000000\<rparr>)
        (Inr \<lparr>access_token = ''old.jwt'', token_type = ''bearer''\<rparr>)
        ''a@b.c'' ''pw'' (initial_auth Map.empty))) = Some ''old.jwt''
   \<and> user (fst (login (Some ''http://localhost:8000'')
        (\<lambda>t. Inr \<lparr>email = ''a@b.c'', username = ''a'', exp = 1700000000\<rparr>)
        (Inr \<lparr>access_token = ''old.jwt'', token_type = ''bearer''\<rparr>)
        ''a@b.c'' ''pw'' (initial_auth Map.empty)))
       = Some \<lparr>email = ''a@b.c'', username = ''a'', exp = 1700000000\<rparr>
   \<and> sessionStorage (fst (login (Some ''http://localhost:8000'')
        (\<lambda>t. Inr \<lparr>email = ''a@b.c'', username = ''a'', exp = 1700000000\<rparr>)
        (Inr \<lparr>access_token = ''old.jwt'', token_type = ''bearer''\<rparr>)
        ''a@b.c'' ''pw'' (initial_auth Map.empty))) ''token'' = Some ''old.jwt''
   \<and> exp \<lparr>email = ''a@b.c'', username = ''a'', exp = 1700000000\<rparr> * 1000 \<le> 1800000000000"
proof -
  have t: "truthy (Some ''http://localhost:8000'')" by (simp add: truthy_def)
  show ?thesis
    by (simp add: login_accepted [OF t] startup_def AuthProvider_mount_def initial_auth_def)
qed


section \<open>\<^verbatim>\<open>logout\<close>\<close>

text \<open>
  Claim C9. \<^verbatim>\<open>logout()\<close> is a function of the state alone: from every state \<open>a\<close> of the
  session manager it leaves no identity, no credential, no error and no entry under
  \<^verbatim>\<open>token\<close> in session storage, and it issues no request. The identity it leaves is
  \<^verbatim>\<open>null\<close>, so the reset effect of \<^verbatim>\<open>ChatProvider\<close> empties the transcript and lowers the
  history flag, whatever state \<open>c\<close> the sends and fetches before had led to. (In
  \<^verbatim>\<open>App\<close>, \<^verbatim>\<open>ChatProvider\<close> is rendered only while there is an identity; when it is
  mounted again it starts from the same empty transcript and lowered flag.) The witness
  logs in, fetches the history, sends a message that times out and fails, and logs out.
\<close>

theorem logout_clears_session_and_chat:
  "user (logout a) = None \<and> token (logout a) = None \<and> error (logout a) = None
   \<and> sessionStorage (logout a) ''token'' = None
   \<and> auth_state.requests (logout a) = auth_state.requests a
   \<and> messages (reset_effect (user (logout a)) c) = []
   \<and> \<not> historyFetched (reset_effect (user (logout a)) c)
   \<and> requests (reset_effect (user (logout a)) c) = requests c"
  by (simp add: logout_def reset_effect_def)

theorem logout_clears_session_and_chat_witness:
  "user (logout (fst (login (Some ''http://localhost:8000'')
        (\<lambda>t. Inr \<lparr>email = ''a@b.c'', username = ''a'', exp = 1900000000\<rparr>)
        (Inr \<lparr>access_token = ''new.jwt'', token_type = ''bearer''\<rparr>)
        ''a@b.c'' ''pw'' (initial_auth Map.empty)))) = None
   \<and> sessionStorage (logout (fst (login (Some ''http://localhost:8000'')
        (\<lambda>t. Inr \<lparr>email = ''a@b.c'', username = ''a'', exp = 1900000000\<rparr>)
        (Inr \<lparr>access_token = ''new.jwt'', token_type = ''bearer''\<rparr>)
        ''a@b.c'' ''pw'' (initial_auth Map.empty)))) ''token'' = None
   \<and> messages (reset_effect
        (user (logout (fst (login (Some ''http://localhost:8000'')
          (\<lambda>t. Inr \<lparr>email = ''a@b.c'', username = ''a'', exp = 1900000000\<rparr>)
          (Inr \<lparr>access_token = ''new.jwt'', token_type = ''bearer''\<rparr>)
          ''a@b.c'' ''pw'' (initial_auth Map.empty)))))
        (sendMessage (Some ''new.jwt'') ''hi'' ''t0'' None ''t1'' (Inl NonError) ''t2''
          (fetchHistory (Some ''new.jwt'') (Inr []) initial_chat))) = []
   \<and> \<not> historyFetched (reset_effect
        (user (logout (fst (login (Some ''http://localhost:8000'')
          (\<lambda>t. Inr \<lparr>email = ''a@b.c'', username = ''a'', exp = 1900000000\<rparr>)
          (Inr \<lparr>access_token = ''new.jwt'', token_type = ''bearer''\<rparr>)
          ''a@b.c'' ''pw'' (initial_auth Map.empty)))))
        (sendMessage (Some ''new.jwt'') ''hi'' ''t0'' None ''t1'' (Inl NonError) ''t2''
          (fetchHistory (Some ''new.jwt'') (Inr []) initial_chat)))"
  using logout_clears_session_and_chat
    [of "fst (login (Some ''http://localhost:8000'')
          (\<lambda>t. Inr \<lparr>email = ''a@b.c'', username = ''a'', exp = 1900000000\<rparr>)
          (Inr \<lparr>access_token = ''new.jwt'', token_type = ''bearer''\<rparr>)
          ''a@b.c'' ''pw'' (initial_auth Map.empty))"
        "sendMessage (Some ''new.jwt'') ''hi'' ''t0'' None ''t1'' (Inl NonError) ''t2''
          (fetchHistory (Some ''new.jwt'') (Inr []) initial_chat)"]
  by blast


section \<open>One retrieval of the history\<close>

text \<open>What a call of \<^verbatim>\<open>fetchHistory()\<close> does when it is skipped and when its request fails.\<close>

lemma fetchHistory_start_latest:
  "fetchHistory_start tok st = fetchHistory_start_captured (historyFetched st) tok st"
  by (simp add: fetchHistory_start_def fetchHistory_start_captured_def)

lemma fetchHistory_skipped:
  "\<not> truthy tok \<or> historyFetched st \<Longrightarrow> fetchHistory tok got st = st"
  by (auto simp: fetchHistory_def fetchHistory_start_def)

lemma fetchHistory_failed:
  "truthy tok \<Longrightarrow> \<not> historyFetched st \<Longrightarrow>
   fetchHistory tok (Inl thrown) st =
     st\<lparr>isLoading := False, requests := requests st @ [GET_chat_history (js_string tok)],
        messages := [], historyFetched := True\<rparr>"
  by (simp add: fetchHistory_def fetchHistory_start_def fetchHistory_settled_def)

lemma fetchHistory_calls_skipped:
  "\<not> truthy tok \<or> historyFetched st \<Longrightarrow> fetchHistory_calls tok gots st = st"
  by (induction gots) (simp_all add: fetchHistory_calls_def fetchHistory_skipped)

lemma retrievals_fetchHistory:
  "retrievals (fetchHistory tok got st) =
     (if \<not> truthy tok \<or> historyFetched st then retrievals st else retrievals st + 1)"
  by (cases got)
     (auto simp: fetchHistory_def fetchHistory_start_def fetchHistory_settled_def
        retrievals_def is_history_request_def)

text \<open>
  Claim C6. When a token is held and the history was not fetched before, a failure of
  the request (whatever is thrown) leaves the empty transcript, the history flag raised
  and the loading flag down, after exactly one retrieval. Nothing retries: the effect
  that calls \<^verbatim>\<open>fetchHistory()\<close> does not fire in the state reached, for any identity, and
  every further call of \<^verbatim>\<open>fetchHistory()\<close> made through the function of a later render
  leaves that state as it is. The witness starts
  from a transcript with one entry. (The file \<^verbatim>\<open>ChatContext.tsx\<close> carries, after the
  component, an older copy of it whose \<^verbatim>\<open>catch\<close> block installs two sample entries in
  place of the empty list; the component defined first, and the copy in
  \<^verbatim>\<open>unnamed/part_000\<close>, install the empty list, as modelled.)
\<close>

theorem fetchHistory_failure_terminal:
  assumes "truthy tok" and "\<not> historyFetched st"
  shows "messages (fetchHistory tok (Inl thrown) st) = []
    \<and> historyFetched (fetchHistory tok (Inl thrown) st)
    \<and> \<not> isLoading (fetchHistory tok (Inl thrown) st)
    \<and> retrievals (fetchHistory tok (Inl thrown) st) = retrievals st + 1
    \<and> \<not> fetch_effect_fires usr tok (fetchHistory tok (Inl thrown) st)
    \<and> fetchHistory_calls tok gots (fetchHistory tok (Inl thrown) st)
        = fetchHistory tok (Inl thrown) st"
proof -
  have f: "historyFetched (fetchHistory tok (Inl thrown) st)"
    using assms by (simp add: fetchHistory_failed)
  have "fetchHistory_calls tok gots (fetchHistory tok (Inl thrown) st)
        = fetchHistory tok (Inl thrown) st"
    using f by (simp add: fetchHistory_calls_skipped)
  moreover have "retrievals (fetchHistory tok (Inl thrown) st) = retrievals st + 1"
    using assms by (simp add: retrievals_fetchHistory)
  moreover have "messages (fetchHistory tok (Inl thrown) st) = []
     \<and> \<not> isLoading (fetchHistory tok (Inl thrown) st)"
    using assms by (simp add: fetchHistory_failed)
  ultimately show ?thesis
    using f by (simp add: fetch_effect_fires_def)
qed

theorem fetchHistory_failure_terminal_witness:
  "truthy (Some ''jwt'')
   \<and> \<not> historyFetched (initial_chat\<lparr>messages := [userMessage ''hi'' ''t0'']\<rparr>)
   \<and> messages (fetchHistory (Some ''jwt'') (Inl (Error ''Request failed with status code 500''))
        (initial_chat\<lparr>messages := [userMessage ''hi'' ''t0'']\<rparr>)) = []
   \<and> historyFetched (fetchHistory (Some ''jwt'') (Inl (Error ''Request failed with status code 500''))
        (initial_chat\<lparr>messages := [userMessage ''hi'' ''t0'']\<rparr>))
   \<and> \<not> isLoading (fetchHistory (Some ''jwt'') (Inl (Error ''Request failed with status code 500''))
        (initial_chat\<lparr>messages := [userMessage ''hi'' ''t0'']\<rparr>))
   \<and> retrievals (fetchHistory (Some ''jwt'') (Inl (Error ''Request failed with status code 500''))
        (initial_chat\<lparr>messages := [userMessage ''hi'' ''t0'']\<rparr>)) = 1
   \<and> retrievals (fetchHistory_calls (Some ''jwt'') [Inr [], Inr []]
        (fetchHistory (Some ''jwt'') (Inl (Error ''Request failed with status code 500''))
          (initial_chat\<lparr>messages := [userMessage ''hi'' ''t0'']\<rparr>))) = 1"
proof -
  define st where "st = initial_chat\<lparr>messages := [userMessage ''hi'' ''t0'']\<rparr>"
  define thrown where "thrown = Error ''Request failed with status code 500''"
  have h1: "truthy (Some ''jwt'')" by (simp add: truthy_def)
  have h2: "\<not> historyFetched st" by (simp add: st_def initial_chat_def)
  have r0: "retrievals st = 0" by (simp add: st_def initial_chat_def retrievals_def)
  note T = fetchHistory_failure_terminal [OF h1 h2, of thrown None "[Inr [], Inr []]"]
  have "messages (fetchHistory (Some ''jwt'') (Inl thrown) st) = []
    \<and> historyFetched (fetchHistory (Some ''jwt'') (Inl thrown) st)
    \<and> \<not> isLoading (fetchHistory (Some ''jwt'') (Inl thrown) st)
    \<and> retrievals (fetchHistory (Some ''jwt'') (Inl thrown) st) = 1
    \<and> retrievals (fetchHistory_calls (Some ''jwt'') [Inr [], Inr []]
          (fetchHistory (Some ''jwt'') (Inl thrown) st)) = 1"
    using T r0 by simp
  with h1 h2 show ?thesis
    unfolding st_def thrown_def by blast
qed

text \<open>
  Claim C7. The test of \<^verbatim>\<open>fetchHistory()\<close> is there to make the retrieval happen once,
  and it does not: the flag is raised only when a request has ended, and the test reads
  the flag that the render which made the function had. So a call begun while another
  still waits for its response issues the request again, and so does a call made, after
  the first has ended and raised the flag, through the function retained from the render
  before. From the initial state with a token held, either way two retrievals are made.
\<close>

theorem fetchHistory_retrieves_twice:
  "snd (fetchHistory_start (Some ''jwt'') initial_chat)
   \<and> snd (fetchHistory_start (Some ''jwt'') (fst (fetchHistory_start (Some ''jwt'') initial_chat)))
   \<and> retrievals
        (fetchHistory_settled (Inr [])
          (fetchHistory_settled (Inr [])
            (fst (fetchHistory_start (Some ''jwt'')
              (fst (fetchHistory_start (Some ''jwt'') initial_chat)))))) = 2
   \<and> historyFetched (fetchHistory (Some ''jwt'') (Inr []) initial_chat)
   \<and> snd (fetchHistory_start_captured False (Some ''jwt'')
            (fetchHistory (Some ''jwt'') (Inr []) initial_chat))
   \<and> retrievals
        (fetchHistory_settled (Inr [])
          (fst (fetchHistory_start_captured False (Some ''jwt'')
            (fetchHistory (Some ''jwt'') (Inr []) initial_chat)))) = 2"
  by (simp add: fetchHistory_def fetchHistory_start_def fetchHistory_start_captured_def
      fetchHistory_settled_def initial_chat_def truthy_def retrievals_def
      is_history_request_def formattedHistory_def)

theorem fetchHistory_retrieves_twice_witness:
  "retrievals
        (fetchHistory_settled (Inr [])
          (fetchHistory_settled (Inr [])
            (fst (fetchHistory_start (Some ''jwt'')
              (fst (fetchHistory_start (Some ''jwt'') initial_chat)))))) = 2
   \<and> retrievals
        (fetchHistory_settled (Inr [])
          (fst (fetchHistory_start_captured False (Some ''jwt'')
            (fetchHistory (Some ''jwt'') (Inr []) initial_chat)))) = 2"
  using fetchHistory_retrieves_twice by blast


section \<open>The placeholder of a timeout\<close>

lemma timeout_notice:
  "answer (timeoutMessage message' now) =
     ''The response is taking longer than expected. Please wait while I process your request...''"
  by (simp add: timeoutMessage_def)

lemma failure_is_not_timeout_notice:
  "answer (errorMessage message' now) \<noteq> answer (timeoutMessage message'' now')"
  by (simp add: errorMessage_def timeoutMessage_def)

lemma messages_retried:
  "messages (sendMessage_retried message' now timeoutMsg retry st) =
     map (\<lambda>msg. if answer msg = answer timeoutMsg
                then (case retry of Inr resp \<Rightarrow> botMessage message' now resp
                      | Inl retryError \<Rightarrow> errorMessage message' now)
                else msg) (messages st)"
  by (cases retry) (simp_all add: sendMessage_retried_def)

lemma raced_timeout:
  "sendMessage_raced tok message' now None st =
     (st\<lparr>messages := messages st @ [timeoutMessage message' now],
         requests := requests st @ [GET_rag_query message' tok]\<rparr>,
      AwaitingRetry (timeoutMessage message' now))"
  by (simp add: sendMessage_raced_def race_def)

lemma sendMessage_timeout:
  "sendMessage tok message' t0 None t1 retry t2 st =
     sendMessage_retried message' t2 (timeoutMessage message' t1) retry
       (fst (sendMessage_raced tok message' t1 None (sendMessage_start tok message' t0 st)))"
  by (simp add: sendMessage_def raced_timeout)

text \<open>
  Claim C10. When the second request of a call that timed out ends, the transcript of
  that moment, whatever it holds, is mapped entry by entry: every entry whose \<^verbatim>\<open>answer\<close>
  is the text of the placeholder becomes one and the same new entry (the message built
  from the reply, or the failure notice when the request failed), every other entry
  stays, and the length stays. So at least as many entries equal the new entry
  afterwards as carried the text before. In the witness the transcript holds the
  placeholders of two sends and a user's entry whose text is that of the placeholder:
  all three become the reply to the first send. (The copy of the component in
  \<^verbatim>\<open>unnamed/part_000\<close> maps the transcript by the same test.)
\<close>

theorem retry_replaces_every_match:
  fixes message' t1 t2 retry st
  defines "notice \<equiv> answer (timeoutMessage message' t1)"
  defines "new \<equiv> (case retry of Inr resp \<Rightarrow> botMessage message' t2 resp
                    | Inl retryError \<Rightarrow> errorMessage message' t2)"
  defines "after \<equiv> messages (sendMessage_retried message' t2 (timeoutMessage message' t1) retry st)"
  shows "notice = ''The response is taking longer than expected. Please wait while I process your request...''
    \<and> length after = length (messages st)
    \<and> (\<forall>i<length (messages st).
          (answer (messages st ! i) = notice \<longrightarrow> after ! i = new)
          \<and> (answer (messages st ! i) \<noteq> notice \<longrightarrow> after ! i = messages st ! i))
    \<and> length (filter (\<lambda>m. m = new) after) \<ge> length (filter (\<lambda>m. answer m = notice) (messages st))"
proof -
  have a: "after = map (\<lambda>msg. if answer msg = notice then new else msg) (messages st)"
    unfolding after_def notice_def new_def by (rule messages_retried)
  have c: "length (filter (\<lambda>m. answer m = notice) xs)
      \<le> length (filter (\<lambda>m. m = new) (map (\<lambda>msg. if answer msg = notice then new else msg) xs))" for xs
    by (induction xs) auto
  have n: "notice = ''The response is taking longer than expected. Please wait while I process your request...''"
    unfolding notice_def by (rule timeout_notice)
  have l: "length after = length (messages st)"
    by (simp add: a)
  have i: "\<forall>i<length (messages st).
          (answer (messages st ! i) = notice \<longrightarrow> after ! i = new)
          \<and> (answer (messages st ! i) \<noteq> notice \<longrightarrow> after ! i = messages st ! i)"
    by (simp add: a)
  have k: "length (filter (\<lambda>m. m = new) after) \<ge> length (filter (\<lambda>m. answer m = notice) (messages st))"
    unfolding a by (rule c)
  show ?thesis
    by (intro conjI n l i k)
qed

theorem retry_replaces_every_match_witness:
  "length (messages (sendMessage_retried ''q1'' ''t9'' (timeoutMessage ''q1'' ''t1'')
       (Inr \<lparr>ChatResponse.id' = None, question = ''q1'', answer = ''Y'', user_id = None,
              created_at = None, updated_at = None\<rparr>)
       (initial_chat\<lparr>messages :=
          [userMessage ''q1'' ''t0'', timeoutMessage ''q1'' ''t1'',
           userMessage (answer (timeoutMessage ''q1'' ''t1'')) ''t2'',
           timeoutMessage ''q2'' ''t3'']\<rparr>))) = 4
   \<and> map answer (messages (sendMessage_retried ''q1'' ''t9'' (timeoutMessage ''q1'' ''t1'')
       (Inr \<lparr>ChatResponse.id' = None, question = ''q1'', answer = ''Y'', user_id = None,
              created_at = None, updated_at = None\<rparr>)
       (initial_chat\<lparr>messages :=
          [userMessage ''q1'' ''t0'', timeoutMessage ''q1'' ''t1'',
           userMessage (answer (timeoutMessage ''q1'' ''t1'')) ''t2'',
           timeoutMessage ''q2'' ''t3'']\<rparr>)))
     = [''q1'', ''Y'', ''Y'', ''Y'']
   \<and> map isUser (messages (sendMessage_retried ''q1'' ''t9'' (timeoutMessage ''q1'' ''t1'')
       (Inr \<lparr>ChatResponse.id' = None, question = ''q1'', answer = ''Y'', user_id = None,
              created_at = None, updated_at = None\<rparr>)
       (initial_chat\<lparr>messages :=
          [userMessage ''q1'' ''t0'', timeoutMessage ''q1'' ''t1'',
           userMessage (answer (timeoutMessage ''q1'' ''t1'')) ''t2'',
           timeoutMessage ''q2'' ''t3'']\<rparr>)))
     = [True, False, False, False]"
proof -
  define resp where "resp = \<lparr>ChatResponse.id' = None, question = ''q1'', answer = ''Y'',
     user_id = None, created_at = None, updated_at = None\<rparr>"
  define st where "st = initial_chat\<lparr>messages :=
          [userMessage ''q1'' ''t0'', timeoutMessage ''q1'' ''t1'',
           userMessage (answer (timeoutMessage ''q1'' ''t1'')) ''t2'',
           timeoutMessage ''q2'' ''t3'']\<rparr>"
  define after where
    "after = messages (sendMessage_retried ''q1'' ''t9'' (timeoutMessage ''q1'' ''t1'') (Inr resp) st)"
  note T = retry_replaces_every_match [where message' = "''q1''" and ?t1.0 = "''t1''"
      and ?t2.0 = "''t9''" and retry = "Inr resp" and st = st, folded after_def]
  have ms: "messages st =
          [userMessage ''q1'' ''t0'', timeoutMessage ''q1'' ''t1'',
           userMessage (answer (timeoutMessage ''q1'' ''t1'')) ''t2'',
           timeoutMessage ''q2'' ''t3'']"
    by (simp add: st_def)
  have len: "length after = 4"
    using T [THEN conjunct2, THEN conjunct1] by (simp add: ms)
  note P = T [THEN conjunct2, THEN conjunct2, THEN conjunct1, rule_format]
  have e0: "after ! 0 = userMessage ''q1'' ''t0''"
    using P [of 0, THEN conjunct2] by (simp add: ms userMessage_def timeoutMessage_def)
  have e1: "after ! 1 = botMessage ''q1'' ''t9'' resp"
    using P [of 1, THEN conjunct1] by (simp add: ms)
  have e2: "after ! 2 = botMessage ''q1'' ''t9'' resp"
    using P [of 2, THEN conjunct1] by (simp add: ms userMessage_def)
  have e3: "after ! 3 = botMessage ''q1'' ''t9'' resp"
    using P [of 3, THEN conjunct1] by (simp add: ms timeoutMessage_def)
  obtain a b c d where abcd: "after = [a, b, c, d]"
    using len by (auto simp: length_Suc_conv numeral_eq_Suc)
  have "after = [userMessage ''q1'' ''t0'', botMessage ''q1'' ''t9'' resp,
      botMessage ''q1'' ''t9'' resp, botMessage ''q1'' ''t9'' resp]"
    using e0 e1 e2 e3 unfolding abcd by simp
  then have "length after = 4 \<and> map answer after = [''q1'', ''Y'', ''Y'', ''Y'']
      \<and> map isUser after = [True, False, False, False]"
    by (simp add: userMessage_def botMessage_def resp_def)
  then show ?thesis
    unfolding after_def st_def resp_def .
qed

text \<open>
  Claim C4, as the code has it. One call of \<^verbatim>\<open>sendMessage\<close> from any state, the request
  started for the race ending late, however it ends (\<open>first\<close>). After the timeout the
  call does not wait for that request: it issues a second one, and \<open>retry\<close> is how the
  second ends. While it waits, two requests have been issued, the transcript is two
  entries longer than before the call and the placeholder stands at position \<open>p\<close>, the
  last one. When the second request has ended, the transcript has the same length and
  position \<open>p\<close> holds, if that request succeeded, the other side's entry with the
  answer of its reply and, if it failed, the failure notice. No entry then carries the
  text of the placeholder, provided the answer of the reply is not itself that text. The
  replacement is in place in any transcript: whatever the state \<open>st'\<close> in which the
  second request ends, wherever the placeholder then stands, that position holds the new
  entry afterwards and the length is the same.
\<close>

theorem timeout_placeholder_replaced:
  fixes tok message' t0 t1 t2 first retry st
  defines "waiting \<equiv> sendMessage_raced tok message' t1 (raced_request first False)
                      (sendMessage_start tok message' t0 st)"
  defines "final \<equiv> messages (sendMessage tok message' t0 (raced_request first False) t1 retry t2 st)"
  defines "p \<equiv> length (messages st) + 1"
  defines "notice \<equiv> ''The response is taking longer than expected. Please wait while I process your request...''"
  shows "snd waiting = AwaitingRetry (timeoutMessage message' t1)
    \<and> answer (timeoutMessage message' t1) = notice
    \<and> length (messages (fst waiting)) = length (messages st) + 2
    \<and> messages (fst waiting) ! p = timeoutMessage message' t1
    \<and> length final = length (messages (fst waiting))
    \<and> (\<forall>resp. retry = Inr resp \<longrightarrow>
          final ! p = botMessage message' t2 resp
          \<and> \<not> isUser (final ! p)
          \<and> answer (final ! p) = ChatResponse.answer resp
          \<and> (ChatResponse.answer resp \<noteq> notice \<longrightarrow> (\<forall>m\<in>set final. answer m \<noteq> notice)))
    \<and> (\<forall>thrown. retry = Inl thrown \<longrightarrow>
          final ! p = errorMessage message' t2
          \<and> \<not> isUser (final ! p)
          \<and> answer (final ! p)
              = ''I'm sorry, I'm currently unable to process your request. Please try again later.''
          \<and> (\<forall>m\<in>set final. answer m \<noteq> notice))
    \<and> (\<forall>st' i. i < length (messages st') \<and> messages st' ! i = timeoutMessage message' t1 \<longrightarrow>
          length (messages (sendMessage_retried message' t2 (timeoutMessage message' t1) retry st'))
            = length (messages st')
          \<and> messages (sendMessage_retried message' t2 (timeoutMessage message' t1) retry st') ! i
            = (case retry of Inr resp \<Rightarrow> botMessage message' t2 resp
               | Inl retryError \<Rightarrow> errorMessage message' t2))
    \<and> requests (fst waiting)
        = requests st @ [GET_rag_query message' tok, GET_rag_query message' tok]"
proof -
  have late: "raced_request first False = None"
    by (simp add: raced_request_def)
  let ?ms = "messages st @ [userMessage message' t0, timeoutMessage message' t1]"
  let ?new = "case retry of Inr resp \<Rightarrow> botMessage message' t2 resp
                | Inl retryError \<Rightarrow> errorMessage message' t2"
  have w: "messages (fst waiting) = ?ms"
    unfolding waiting_def late by (simp add: raced_timeout sendMessage_start_def)
  have two: "requests (fst waiting)
        = requests st @ [GET_rag_query message' tok, GET_rag_query message' tok]"
    unfolding waiting_def late by (simp add: raced_timeout sendMessage_start_def)
  have s: "snd waiting = AwaitingRetry (timeoutMessage message' t1)"
    unfolding waiting_def late by (simp add: raced_timeout)
  have n: "answer (timeoutMessage message' t1) = notice"
    unfolding notice_def by (rule timeout_notice)
  have f: "final = map (\<lambda>msg. if answer msg = notice then ?new else msg) ?ms"
    unfolding final_def late sendMessage_timeout messages_retried n
    using w unfolding waiting_def late by simp
  have wp: "messages (fst waiting) ! p = timeoutMessage message' t1"
    unfolding w p_def by (simp add: nth_append)
  have fp: "final ! p = ?new"
    unfolding f p_def by (simp add: nth_append n)
  have gone: "\<forall>m\<in>set final. answer m \<noteq> notice" if "answer ?new \<noteq> notice"
    unfolding f using that by auto
  have ok: "\<forall>resp. retry = Inr resp \<longrightarrow>
          final ! p = botMessage message' t2 resp
          \<and> \<not> isUser (final ! p)
          \<and> answer (final ! p) = ChatResponse.answer resp
          \<and> (ChatResponse.answer resp \<noteq> notice \<longrightarrow> (\<forall>m\<in>set final. answer m \<noteq> notice))"
  proof (intro allI impI)
    fix resp assume r: "retry = Inr resp"
    then have new: "?new = botMessage message' t2 resp" by simp
    have "ChatResponse.answer resp \<noteq> notice \<longrightarrow> (\<forall>m\<in>set final. answer m \<noteq> notice)"
      using gone unfolding new by (simp add: botMessage_def)
    then show "final ! p = botMessage message' t2 resp
          \<and> \<not> isUser (final ! p)
          \<and> answer (final ! p) = ChatResponse.answer resp
          \<and> (ChatResponse.answer resp \<noteq> notice \<longrightarrow> (\<forall>m\<in>set final. answer m \<noteq> notice))"
      unfolding fp new by (simp add: botMessage_def)
  qed
  have ko: "\<forall>thrown. retry = Inl thrown \<longrightarrow>
          final ! p = errorMessage message' t2
          \<and> \<not> isUser (final ! p)
          \<and> answer (final ! p)
              = ''I'm sorry, I'm currently unable to process your request. Please try again later.''
          \<and> (\<forall>m\<in>set final. answer m \<noteq> notice)"
  proof (intro allI impI)
    fix thrown assume r: "retry = Inl thrown"
    then have new: "?new = errorMessage message' t2" by simp
    have "answer (errorMessage message' t2) \<noteq> notice"
      unfolding n [symmetric] by (rule failure_is_not_timeout_notice)
    then have "\<forall>m\<in>set final. answer m \<noteq> notice"
      using gone unfolding new by simp
    then show "final ! p = errorMessage message' t2
          \<and> \<not> isUser (final ! p)
          \<and> answer (final ! p)
              = ''I'm sorry, I'm currently unable to process your request. Please try again later.''
          \<and> (\<forall>m\<in>set final. answer m \<noteq> notice)"
      unfolding fp new by (simp add: errorMessage_def)
  qed
  have l1: "length (messages (fst waiting)) = length (messages st) + 2"
    by (simp add: w)
  have l2: "length final = length (messages (fst waiting))"
    by (simp add: f w)
  have anywhere: "\<forall>st' i. i < length (messages st') \<and> messages st' ! i = timeoutMessage message' t1 \<longrightarrow>
          length (messages (sendMessage_retried message' t2 (timeoutMessage message' t1) retry st'))
            = length (messages st')
          \<and> messages (sendMessage_retried message' t2 (timeoutMessage message' t1) retry st') ! i
            = (case retry of Inr resp \<Rightarrow> botMessage message' t2 resp
               | Inl retryError \<Rightarrow> errorMessage message' t2)"
    by (simp add: messages_retried)
  show ?thesis
    by (intro conjI s n l1 wp l2 ok ko anywhere two)
qed

text \<open>
  The claim as stated is about the request that lost the race. Its reply is not what the
  transcript gets: when that request ends late with the answer \<^verbatim>\<open>Y\<close> and the second
  request fails, the position of the placeholder holds the failure notice and no entry
  has the answer \<^verbatim>\<open>Y\<close>. And when the second request replies with the very text of the
  placeholder, the transcript still carries that text.
\<close>

theorem late_reply_discarded_counterexample:
  "answer (messages (sendMessage (Some ''jwt'') ''hi'' ''t0''
       (raced_request
         (Inr \<lparr>ChatResponse.id' = Some 7, question = ''hi'', answer = ''Y'', user_id = None,
                created_at = None, updated_at = None\<rparr>) False)
       ''t1''
       (Inl (Error ''Network Error: Cannot reach the server. Please ensure the backend is running.''))
       ''t2'' initial_chat) ! 1)
     = ''I'm sorry, I'm currently unable to process your request. Please try again later.''
   \<and> ''Y'' \<notin> set (map answer (messages (sendMessage (Some ''jwt'') ''hi'' ''t0''
       (raced_request
         (Inr \<lparr>ChatResponse.id' = Some 7, question = ''hi'', answer = ''Y'', user_id = None,
                created_at = None, updated_at = None\<rparr>) False)
       ''t1''
       (Inl (Error ''Network Error: Cannot reach the server. Please ensure the backend is running.''))
       ''t2'' initial_chat)))
   \<and> answer (messages (sendMessage (Some ''jwt'') ''hi'' ''t0''
       (raced_request
         (Inr \<lparr>ChatResponse.id' = Some 7, question = ''hi'', answer = ''Y'', user_id = None,
                created_at = None, updated_at = None\<rparr>) False)
       ''t1''
       (Inr \<lparr>ChatResponse.id' = Some 8, question = ''hi'',
              answer = ''The response is taking longer than expected. Please wait while I process your request...'',
              user_id = None, created_at = None, updated_at = None\<rparr>)
       ''t2'' initial_chat) ! 1)
     = ''The response is taking longer than expected. Please wait while I process your request...''"
  by (simp add: sendMessage_def sendMessage_raced_def race_def raced_request_def
      sendMessage_start_def sendMessage_retried_def initial_chat_def userMessage_def
      timeoutMessage_def errorMessage_def botMessage_def)

theorem timeout_placeholder_replaced_witness:
  "length (messages (sendMessage (Some ''jwt'') ''hi'' ''t0''
       (raced_request
         (Inr \<lparr>ChatResponse.id' = Some 6, question = ''hi'', answer = ''X'', user_id = None,
                created_at = None, updated_at = None\<rparr>) False) ''t1''
       (Inr \<lparr>ChatResponse.id' = Some 7, question = ''hi'', answer = ''Y'', user_id = None,
              created_at = None, updated_at = None\<rparr>) ''t2'' initial_chat)) = 2
   \<and> answer (messages (sendMessage (Some ''jwt'') ''hi'' ''t0''
       (raced_request
         (Inr \<lparr>ChatResponse.id' = Some 6, question = ''hi'', answer = ''X'', user_id = None,
                created_at = None, updated_at = None\<rparr>) False) ''t1''
       (Inr \<lparr>ChatResponse.id' = Some 7, question = ''hi'', answer = ''Y'', user_id = None,
              created_at = None, updated_at = None\<rparr>) ''t2'' initial_chat) ! 1) = ''Y''
   \<and> \<not> isUser (messages (sendMessage (Some ''jwt'') ''hi'' ''t0''
       (raced_request
         (Inr \<lparr>ChatResponse.id' = Some 6, question = ''hi'', answer = ''X'', user_id = None,
                created_at = None, updated_at = None\<rparr>) False) ''t1''
       (Inr \<lparr>ChatResponse.id' = Some 7, question = ''hi'', answer = ''Y'', user_id = None,
              created_at = None, updated_at = None\<rparr>) ''t2'' initial_chat) ! 1)
   \<and> ''The response is taking longer than expected. Please wait while I process your request...''
       \<notin> set (map answer (messages (sendMessage (Some ''jwt'') ''hi'' ''t0''
       (raced_request
         (Inr \<lparr>ChatResponse.id' = Some 6, question = ''hi'', answer = ''X'', user_id = None,
                created_at = None, updated_at = None\<rparr>) False) ''t1''
       (Inr \<lparr>ChatResponse.id' = Some 7, question = ''hi'', answer = ''Y'', user_id = None,
              created_at = None, updated_at = None\<rparr>) ''t2'' initial_chat)))
   \<and> answer (messages (sendMessage (Some ''jwt'') ''hi'' ''t0''
       (raced_request
         (Inr \<lparr>ChatResponse.id' = Some 6, question = ''hi'', answer = ''X'', user_id = None,
                created_at = None, updated_at = None\<rparr>) False) ''t1''
       (Inl (Error ''Network Error: Cannot reach the server. Please ensure the backend is running.''))
       ''t2'' initial_chat) ! 1)
     = ''I'm sorry, I'm currently unable to process your request. Please try again later.''"
proof -
  define lost where "lost = \<lparr>ChatResponse.id' = Some 6, question = ''hi'', answer = ''X'',
     user_id = None, created_at = None, updated_at = None\<rparr>"
  define resp where "resp = \<lparr>ChatResponse.id' = Some 7, question = ''hi'', answer = ''Y'',
     user_id = None, created_at = None, updated_at = None\<rparr>"
  define thrown where
    "thrown = Error ''Network Error: Cannot reach the server. Please ensure the backend is running.''"
  define final where
    "final = messages (sendMessage (Some ''jwt'') ''hi'' ''t0''
       (raced_request (Inr lost) False) ''t1'' (Inr resp) ''t2'' initial_chat)"
  define final' where
    "final' = messages (sendMessage (Some ''jwt'') ''hi'' ''t0''
       (raced_request (Inr lost) False) ''t1'' (Inl thrown) ''t2'' initial_chat)"
  note T = timeout_placeholder_replaced [where tok = "Some ''jwt''" and message' = "''hi''"
      and ?t0.0 = "''t0''" and ?t1.0 = "''t1''" and ?t2.0 = "''t2''" and st = initial_chat
      and first = "Inr lost" and retry = "Inr resp", folded final_def]
  note T' = timeout_placeholder_replaced [where tok = "Some ''jwt''" and message' = "''hi''"
      and ?t0.0 = "''t0''" and ?t1.0 = "''t1''" and ?t2.0 = "''t2''" and st = initial_chat
      and first = "Inr lost" and retry = "Inl thrown", folded final'_def]
  have z: "length (messages initial_chat) = 0" by (simp add: initial_chat_def)
  have y: "ChatResponse.answer resp = ''Y''" by (simp add: resp_def)
  have len: "length final = 2"
    using T [THEN conjunct2, THEN conjunct2, THEN conjunct2, THEN conjunct2, THEN conjunct1]
      T [THEN conjunct2, THEN conjunct2, THEN conjunct1] z by simp
  note R = T [THEN conjunct2, THEN conjunct2, THEN conjunct2, THEN conjunct2, THEN conjunct2,
      THEN conjunct1, rule_format, OF refl]
  have a: "answer (final ! 1) = ''Y'' \<and> \<not> isUser (final ! 1)"
    using R [THEN conjunct2, THEN conjunct1] R [THEN conjunct2, THEN conjunct2, THEN conjunct1] z y
    by simp
  have "\<forall>m\<in>set final. answer m
      \<noteq> ''The response is taking longer than expected. Please wait while I process your request...''"
    using R [THEN conjunct2, THEN conjunct2, THEN conjunct2] y by simp
  then have g: "''The response is taking longer than expected. Please wait while I process your request...''
       \<notin> set (map answer final)"
    by auto
  note R' = T' [THEN conjunct2, THEN conjunct2, THEN conjunct2, THEN conjunct2, THEN conjunct2,
      THEN conjunct2, THEN conjunct1, rule_format, OF refl]
  have e: "answer (final' ! 1)
     = ''I'm sorry, I'm currently unable to process your request. Please try again later.''"
    using R' [THEN conjunct2, THEN conjunct2, THEN conjunct1] z by simp
  show ?thesis
    using len a g e unfolding final_def final'_def resp_def thrown_def lost_def by blast
qed

text \<open>
  Claim C5, as the code has it. The call raises the loading flag before the race. When
  the race ends with the reply, or with an error other than the timeout, the call is
  finished and the flag is down. When it ends with the timeout, the call is inside its
  \<^verbatim>\<open>catch\<close> block, whose \<^verbatim>\<open>finally\<close> has not run: it waits for the second request with the
  flag still up. The continuation never sets the flag to \<^verbatim>\<open>true\<close>; it lowers it when
  the second request has ended, in whatever state that happens. After the whole call the
  flag is down.
\<close>

theorem loading_cleared_when_send_completes:
  fixes tok message' t0 settled t1 retry t2 st
  defines "raced \<equiv> sendMessage_raced tok message' t1 settled (sendMessage_start tok message' t0 st)"
  shows "isLoading (sendMessage_start tok message' t0 st)
    \<and> (settled = None \<longrightarrow> race settled = Inl (Error ''Request timeout''))
    \<and> (race settled \<noteq> Inl (Error ''Request timeout'') \<longrightarrow>
          snd raced = Finished \<and> \<not> isLoading (fst raced))
    \<and> (race settled = Inl (Error ''Request timeout'') \<longrightarrow>
          snd raced = AwaitingRetry (timeoutMessage message' t1)
          \<and> isLoading (fst raced)
          \<and> (\<forall>st'. \<not> isLoading
                (sendMessage_retried message' t2 (timeoutMessage message' t1) retry st')))
    \<and> \<not> isLoading (sendMessage tok message' t0 settled t1 retry t2 st)"
proof -
  have a: "isLoading (sendMessage_start tok message' t0 st)"
    by (simp add: sendMessage_start_def)
  have b: "settled = None \<longrightarrow> race settled = Inl (Error ''Request timeout'')"
    by (simp add: race_def)
  have c: "race settled \<noteq> Inl (Error ''Request timeout'') \<longrightarrow>
          snd raced = Finished \<and> \<not> isLoading (fst raced)"
    unfolding raced_def by (cases "race settled") (simp_all add: sendMessage_raced_def)
  have r: "\<not> isLoading (sendMessage_retried message' t2 tm retry st')" for tm st'
    by (cases retry) (simp_all add: sendMessage_retried_def)
  have d: "race settled = Inl (Error ''Request timeout'') \<longrightarrow>
          snd raced = AwaitingRetry (timeoutMessage message' t1)
          \<and> isLoading (fst raced)
          \<and> (\<forall>st'. \<not> isLoading
                (sendMessage_retried message' t2 (timeoutMessage message' t1) retry st'))"
    unfolding raced_def by (simp add: sendMessage_raced_def sendMessage_start_def r)
  have e: "\<not> isLoading (sendMessage tok message' t0 settled t1 retry t2 st)"
  proof (cases "race settled = Inl (Error ''Request timeout'')")
    case True
    then show ?thesis
      by (simp add: sendMessage_def sendMessage_raced_def r)
  next
    case False
    then show ?thesis
      by (cases "race settled") (simp_all add: sendMessage_def sendMessage_raced_def)
  qed
  show ?thesis
    by (intro conjI a b c d e)
qed

text \<open>
  The claim as stated says that the flag is lowered as soon as the race has ended
  either way, and is down while the continuation waits. From the initial state, after
  the timeout, the call waits for its retry and the flag is up.
\<close>

theorem loading_during_retry_counterexample:
  "snd (sendMessage_raced (Some ''jwt'') ''hi'' ''t1'' None
          (sendMessage_start (Some ''jwt'') ''hi'' ''t0'' initial_chat))
     = AwaitingRetry (timeoutMessage ''hi'' ''t1'')
   \<and> isLoading (fst (sendMessage_raced (Some ''jwt'') ''hi'' ''t1'' None
          (sendMessage_start (Some ''jwt'') ''hi'' ''t0'' initial_chat)))"
  by (simp add: raced_timeout sendMessage_start_def)

theorem loading_cleared_when_send_completes_witness:
  "isLoading (sendMessage_start (Some ''jwt'') ''hi'' ''t0'' initial_chat)
   \<and> \<not> isLoading (fst (sendMessage_raced (Some ''jwt'') ''hi'' ''t1''
        (Some (Inr \<lparr>ChatResponse.id' = Some 7, question = ''hi'', answer = ''Y'', user_id = None,
              created_at = None, updated_at = None\<rparr>))
        (sendMessage_start (Some ''jwt'') ''hi'' ''t0'' initial_chat)))
   \<and> isLoading (fst (sendMessage_raced (Some ''jwt'') ''hi'' ''t1'' None
        (sendMessage_start (Some ''jwt'') ''hi'' ''t0'' initial_chat)))
   \<and> \<not> isLoading (sendMessage (Some ''jwt'') ''hi'' ''t0'' None ''t1''
        (Inr \<lparr>ChatResponse.id' = Some 7, question = ''hi'', answer = ''Y'', user_id = None,
              created_at = None, updated_at = None\<rparr>) ''t2'' initial_chat)"
proof -
  define resp where "resp = \<lparr>ChatResponse.id' = Some 7, question = ''hi'', answer = ''Y'',
     user_id = None, created_at = None, updated_at = None\<rparr>"
  note A = loading_cleared_when_send_completes [where tok = "Some ''jwt''"
      and message' = "''hi''" and ?t0.0 = "''t0''" and ?t1.0 = "''t1''" and ?t2.0 = "''t2''"
      and st = initial_chat and settled = "Some (Inr resp)" and retry = "Inr resp"]
  note B = loading_cleared_when_send_completes [where tok = "Some ''jwt''"
      and message' = "''hi''" and ?t0.0 = "''t0''" and ?t1.0 = "''t1''" and ?t2.0 = "''t2''"
      and st = initial_chat and settled = None and retry = "Inr resp"]
  have ra: "race (Some (Inr resp)) \<noteq> Inl (Error ''Request timeout'')"
    by (simp add: race_def)
  have rb: "race None = Inl (Error ''Request timeout'')"
    using B [THEN conjunct2, THEN conjunct1] by simp
  show ?thesis
    unfolding resp_def [symmetric]
    using A [THEN conjunct1]
      A [THEN conjunct2, THEN conjunct2, THEN conjunct1, rule_format, OF ra]
      B [THEN conjunct2, THEN conjunct2, THEN conjunct2, THEN conjunct1, rule_format, OF rb]
      B [THEN conjunct2, THEN conjunct2, THEN conjunct2, THEN conjunct2]
    by blast
qed

end
